theory Spec2Isabelle
  imports Main "HOL-Library.AList"
begin

section \<open>Data model\<close>

text \<open>
  The deployment service of MCP Hub, as a shallow embedding. The classes of
  \<^verbatim>\<open>core/models/deployment.py\<close> and \<^verbatim>\<open>core/models/mcp_server.py\<close> become records,
  their enumerations become datatypes. Several classes share attribute names
  (\<^verbatim>\<open>name\<close>, \<^verbatim>\<open>status\<close>, \<^verbatim>\<open>error_message\<close>), so every field carries a short prefix
  for its class: \<^verbatim>\<open>d_\<close> for \<^verbatim>\<open>Deployment\<close>, \<^verbatim>\<open>s_\<close> for \<^verbatim>\<open>MCPServer\<close>. The members of
  \<^verbatim>\<open>MCPServerStatus\<close> carry the prefix \<^verbatim>\<open>MCP_\<close>, since both enumerations have
  \<^verbatim>\<open>PENDING\<close>, \<^verbatim>\<open>RUNNING\<close>, \<^verbatim>\<open>FAILED\<close> and others. A UUID is its canonical text, an
  \<^verbatim>\<open>Optional[str]\<close> column is a \<open>string option\<close>, a JSON dictionary of strings is
  an association list.
\<close>

type_synonym UUID = string

datatype DeploymentStatus =
  PENDING | DEPLOYING | RUNNING | SCALING | UPDATING | STOPPING | STOPPED | FAILED | ERROR

datatype MCPServerStatus =
  MCP_PENDING | MCP_GENERATING | MCP_BUILDING | MCP_READY | MCP_DEPLOYING | MCP_RUNNING
  | MCP_STOPPED | MCP_ERROR | MCP_FAILED

record Deployment =
  d_id :: UUID
  d_name :: string
  d_status :: DeploymentStatus
  d_container_name :: "string option"
  d_container_id :: "string option"
  d_namespace :: "string option"
  d_deployment_name :: "string option"
  d_service_name :: "string option"
  d_cpu_limit :: "string option"
  d_memory_limit :: "string option"
  d_replicas :: int
  d_port :: int
  d_external_url :: "string option"
  d_environment_variables :: "(string \<times> string) list option"
  d_deployment_logs :: "string option"
  d_error_message :: "string option"
  d_health_check_path :: string
  d_mcp_server_id :: UUID
  d_owner_id :: UUID

record MCPServer =
  s_id :: UUID
  s_name :: string
  s_status :: MCPServerStatus
  s_generated_code_path :: "string option"
  s_docker_image_name :: "string option"
  s_docker_image_tag :: "string option"
  s_generation_logs :: "string option"
  s_build_logs :: "string option"
  s_error_message :: "string option"
  s_api_registration_id :: UUID
  s_owner_id :: UUID

subsection \<open>String formatting\<close>

text \<open>
  An f-string renders \<^verbatim>\<open>None\<close> as the text \<^verbatim>\<open>None\<close> and an integer in decimal.
\<close>

definition fmt_opt :: "string option \<Rightarrow> string" where
  "fmt_opt v = (case v of None \<Rightarrow> ''None'' | Some s \<Rightarrow> s)"

fun str_nat :: "nat \<Rightarrow> string" where
  "str_nat n = (if n < 10 then [''0123456789'' ! n]
                else str_nat (n div 10) @ [''0123456789'' ! (n mod 10)])"

declare str_nat.simps [simp del]

definition str_int :: "int \<Rightarrow> string" where
  "str_int i = (if i < 0 then CHR ''-'' # str_nat (nat (- i)) else str_nat (nat i))"

section \<open>The cluster and the persistence layer as an environment\<close>

text \<open>
  The Kubernetes client library and the database are outside the repository. What
  they answer is an input of the model: the record \<open>env\<close> fixes, for each call the
  code makes, whether it returns or raises. A call of the Kubernetes client returns
  a value, raises \<^verbatim>\<open>ApiException\<close> with an HTTP status, or raises something else.
\<close>

datatype 'a api = Returns 'a | Raises_ApiException int | Raises string

record V1DeploymentCondition =
  cond_type :: string
  cond_status :: string
  cond_reason :: "string option"
  cond_message :: "string option"

text \<open>What \<^verbatim>\<open>read_namespaced_deployment\<close> returns, as far as the code reads it.\<close>

record V1DeploymentRead =
  spec_replicas :: "int option"
  status_ready_replicas :: "int option"
  status_available_replicas :: "int option"
  status_updated_replicas :: "int option"
  status_conditions :: "V1DeploymentCondition list option"

text \<open>The dictionary \<^verbatim>\<open>get_deployment_status\<close> builds from it.\<close>

record status_dict =
  st_replicas :: "int option"
  st_ready_replicas :: int
  st_available_replicas :: int
  st_updated_replicas :: int
  st_conditions :: "V1DeploymentCondition list"

record V1Probe =
  probe_path :: string
  probe_port :: int
  initial_delay_seconds :: int
  period_seconds :: int

record V1Container =
  c_name :: string
  c_image :: string
  c_container_port :: int
  c_env :: "(string \<times> string) list"
  c_limits :: "(string \<times> string option) list"
  c_requests :: "(string \<times> string) list"
  c_liveness_probe :: V1Probe
  c_readiness_probe :: V1Probe

record V1Deployment =
  m_name :: string
  m_namespace :: "string option"
  m_labels :: "(string \<times> string) list"
  m_replicas :: int
  m_match_labels :: "(string \<times> string) list"
  m_template_labels :: "(string \<times> string) list"
  m_containers :: "V1Container list"

record V1Service =
  sv_name :: string
  sv_namespace :: "string option"
  sv_labels :: "(string \<times> string) list"
  sv_selector :: "(string \<times> string) list"
  sv_port :: int
  sv_target_port :: int
  sv_protocol :: string
  sv_type :: string

text \<open>
  Everything the code does to the outside is appended to a trace: the rows it
  commits, the calls it makes on the Kubernetes client with their arguments, its
  sleeps and the errors it logs.
\<close>

datatype event =
    Commit Deployment
  | Commit_delete UUID
  | Read_namespace "string option"
  | Create_namespace "string option"
  | Create_namespaced_deployment "string option" V1Deployment
  | Create_namespaced_service "string option" V1Service
  | Read_namespaced_deployment "string option" "string option"
  | Patch_namespaced_deployment_scale "string option" "string option" int
  | Delete_namespaced_deployment "string option" "string option"
  | Delete_namespaced_service string "string option"
  | Sleep int
  | Log_error string
  | Commit_server MCPServer
  | Generate_from_template string
  | Build_image string string string

record env =
  db_fault :: "nat \<Rightarrow> string option"
    \<comment> \<open>the i-th call on the database session raises with this message\<close>
  is_initialized :: bool
  read_namespace_r :: "unit api"
  create_namespace_r :: "unit api"
  create_namespaced_deployment_r :: "unit api"
  create_namespaced_service_r :: "unit api"
  read_namespaced_deployment_r :: "nat \<Rightarrow> V1DeploymentRead api"
    \<comment> \<open>the answer to the n-th status read\<close>
  read_latency :: "nat \<Rightarrow> nat"
    \<comment> \<open>the seconds the n-th status read takes\<close>
  oversleep :: "nat \<Rightarrow> nat"
    \<comment> \<open>the seconds the n-th sleep lasts beyond what was asked\<close>
  patch_namespaced_deployment_scale_r :: "unit api"
  delete_namespaced_deployment_r :: "unit api"
  delete_namespaced_service_r :: "unit api"

text \<open>The background tasks a request handler hands to the framework.\<close>

datatype task =
    Deploy_task UUID MCPServer
  | Update_task UUID
  | Scale_task UUID int
  | Stop_task UUID
  | Delete_task UUID

record world =
  deployments :: "UUID \<rightharpoonup> Deployment"   \<comment> \<open>the committed rows\<close>
  mcp_servers :: "UUID \<rightharpoonup> MCPServer"
  background_tasks :: "task list"
  clock :: int                          \<comment> \<open>the event loop's time, in seconds\<close>
  db_ops :: nat                         \<comment> \<open>calls made on database sessions so far\<close>
  polls :: nat                          \<comment> \<open>status reads made so far\<close>
  sleeps :: nat                         \<comment> \<open>sleeps made so far\<close>
  trace :: "event list"

text \<open>
  A call either ends or raises an exception, of which the model keeps the text
  (\<^verbatim>\<open>str(e)\<close>). The clock of the event loop is counted in whole seconds: a status read
  takes the time the environment says, and \<^verbatim>\<open>asyncio.sleep(n)\<close> lasts \<open>n\<close> seconds or
  longer, never less.
\<close>

datatype outcome = Done | Raised string

definition emit :: "event \<Rightarrow> world \<Rightarrow> world" where
  "emit e w = w\<lparr>trace := trace w @ [e]\<rparr>"

definition sleep :: "env \<Rightarrow> int \<Rightarrow> world \<Rightarrow> world" where
  "sleep en secs w =
     emit (Sleep secs)
       (w\<lparr>clock := clock w + secs + int (oversleep en (sleeps w)), sleeps := Suc (sleeps w)\<rparr>)"

subsection \<open>The database session\<close>

text \<open>
  An operation works on one instance of the row, \<^verbatim>\<open>deployment\<close>, which it changes in
  memory; \<^verbatim>\<open>db.commit()\<close> writes the instance to the store, or raises and writes
  nothing. A \<^verbatim>\<open>select\<close> by id returns the instance the session already holds (with
  its uncommitted changes) when there is one, the committed row otherwise.
\<close>

definition commit :: "env \<Rightarrow> Deployment \<Rightarrow> world \<Rightarrow> outcome \<times> world" where
  "commit en d w =
     (case db_fault en (db_ops w) of
        Some msg \<Rightarrow> (Raised msg, w\<lparr>db_ops := Suc (db_ops w)\<rparr>)
      | None \<Rightarrow>
          (Done, emit (Commit d)
             (w\<lparr>db_ops := Suc (db_ops w), deployments := (deployments w)(d_id d \<mapsto> d)\<rparr>)))"

definition db_call :: "env \<Rightarrow> world \<Rightarrow> outcome \<times> world" where
  \<comment> \<open>a call on the session that changes no row: \<^verbatim>\<open>db.refresh\<close>, \<^verbatim>\<open>db.delete\<close>\<close>
  "db_call en w =
     (case db_fault en (db_ops w) of
        Some msg \<Rightarrow> (Raised msg, w\<lparr>db_ops := Suc (db_ops w)\<rparr>)
      | None \<Rightarrow> (Done, w\<lparr>db_ops := Suc (db_ops w)\<rparr>))"

definition commit_delete :: "env \<Rightarrow> Deployment \<Rightarrow> world \<Rightarrow> outcome \<times> world" where
  \<comment> \<open>the commit after \<^verbatim>\<open>db.delete(deployment)\<close>\<close>
  "commit_delete en d w =
     (case db_fault en (db_ops w) of
        Some msg \<Rightarrow> (Raised msg, w\<lparr>db_ops := Suc (db_ops w)\<rparr>)
      | None \<Rightarrow>
          (Done, emit (Commit_delete (d_id d))
             (w\<lparr>db_ops := Suc (db_ops w), deployments := (deployments w)(d_id d := None)\<rparr>)))"

definition select_mcp_server ::
  "env \<Rightarrow> UUID \<Rightarrow> world \<Rightarrow> (string + MCPServer option) \<times> world" where
  "select_mcp_server en server_id w =
     (case db_fault en (db_ops w) of
        Some msg \<Rightarrow> (Inl msg, w\<lparr>db_ops := Suc (db_ops w)\<rparr>)
      | None \<Rightarrow> (Inr (mcp_servers w server_id), w\<lparr>db_ops := Suc (db_ops w)\<rparr>))"

definition select_deployment ::
  "env \<Rightarrow> UUID \<Rightarrow> Deployment option \<Rightarrow> world \<Rightarrow> (string + Deployment option) \<times> world" where
  "select_deployment en deployment_id held w =
     (case db_fault en (db_ops w) of
        Some msg \<Rightarrow> (Inl msg, w\<lparr>db_ops := Suc (db_ops w)\<rparr>)
      | None \<Rightarrow>
          (Inr (case deployments w deployment_id of
                  None \<Rightarrow> None
                | Some row \<Rightarrow> (case held of None \<Rightarrow> Some row | Some d \<Rightarrow> Some d)),
           w\<lparr>db_ops := Suc (db_ops w)\<rparr>))"

section \<open>KubernetesManager\<close>

text \<open>\<^verbatim>\<open>get_deployment_status\<close>: no status when the manager is not initialised or the read raises.\<close>

definition get_deployment_status ::
  "env \<Rightarrow> string option \<Rightarrow> string option \<Rightarrow> world \<Rightarrow> status_dict option \<times> world" where
  "get_deployment_status en name namespace w =
     (if \<not> is_initialized en then (None, w)
      else
        let w1 = emit (Read_namespaced_deployment name namespace)
                   (w\<lparr>polls := Suc (polls w),
                      clock := clock w + int (read_latency en (polls w))\<rparr>)
        in case read_namespaced_deployment_r en (polls w) of
             Returns dep \<Rightarrow>
               (Some \<lparr>st_replicas = spec_replicas dep,
                      st_ready_replicas = (case status_ready_replicas dep of None \<Rightarrow> 0 | Some n \<Rightarrow> n),
                      st_available_replicas = (case status_available_replicas dep of None \<Rightarrow> 0 | Some n \<Rightarrow> n),
                      st_updated_replicas = (case status_updated_replicas dep of None \<Rightarrow> 0 | Some n \<Rightarrow> n),
                      st_conditions = (case status_conditions dep of None \<Rightarrow> [] | Some cs \<Rightarrow> cs)\<rparr>,
                w1)
           | Raises_ApiException code \<Rightarrow> (None, emit (Log_error ''Failed to get deployment status'') w1)
           | Raises msg \<Rightarrow> (None, emit (Log_error ''Failed to get deployment status'') w1))"

text \<open>
  A dictionary display \<^verbatim>\<open>{..., **extra}\<close>: a key of \<open>extra\<close> that is already there
  keeps its place and takes the new value, a new key goes to the end.
\<close>

definition dict_merge :: "(string \<times> 'v) list \<Rightarrow> (string \<times> 'v) list \<Rightarrow> (string \<times> 'v) list" where
  "dict_merge base extra = fold (\<lambda>(k, v). AList.update k v) extra base"

text \<open>\<^verbatim>\<open>create_namespace\<close>: an existing namespace is a success; only a 404 leads to the creation.\<close>

definition create_namespace :: "env \<Rightarrow> string option \<Rightarrow> world \<Rightarrow> bool \<times> world" where
  "create_namespace en namespace w =
     (if \<not> is_initialized en then (False, emit (Log_error ''Kubernetes not available'') w)
      else
        let w1 = emit (Read_namespace namespace) w
        in case read_namespace_r en of
             Returns u \<Rightarrow> (True, w1)
           | Raises msg \<Rightarrow> (False, emit (Log_error ''Failed to create namespace'') w1)
           | Raises_ApiException code \<Rightarrow>
               if code \<noteq> 404 then (False, emit (Log_error ''Failed to create namespace'') w1)
               else
                 (let w2 = emit (Create_namespace namespace) w1
                  in (case create_namespace_r en of
                        Returns u \<Rightarrow> (True, w2)
                      | Raises_ApiException c \<Rightarrow> (False, emit (Log_error ''Failed to create namespace'') w2)
                      | Raises msg \<Rightarrow> (False, emit (Log_error ''Failed to create namespace'') w2))))"

text \<open>
  The manifest \<^verbatim>\<open>create_deployment\<close> builds. The path of both probes is the literal
  \<^verbatim>\<open>/health\<close> of the source: the method has no parameter for it.
\<close>

definition deployment_manifest ::
  "string \<Rightarrow> string option \<Rightarrow> string \<Rightarrow> int \<Rightarrow> int \<Rightarrow> string option \<Rightarrow> string option
   \<Rightarrow> (string \<times> string) list option \<Rightarrow> (string \<times> string) list option \<Rightarrow> V1Deployment" where
  "deployment_manifest name namespace img port replicas cpu_limit memory_limit env_vars labels =
     \<lparr>m_name = name,
      m_namespace = namespace,
      m_labels = dict_merge [(''app'', name), (''managed-by'', ''mcp-hub'')]
                   (case labels of None \<Rightarrow> [] | Some ls \<Rightarrow> ls),
      m_replicas = replicas,
      m_match_labels = [(''app'', name)],
      m_template_labels = [(''app'', name)],
      m_containers =
        [\<lparr>c_name = name,
          c_image = img,
          c_container_port = port,
          c_env = (case env_vars of None \<Rightarrow> [] | Some kvs \<Rightarrow> kvs),
          c_limits = [(''cpu'', cpu_limit), (''memory'', memory_limit)],
          c_requests = [(''cpu'', ''100m''), (''memory'', ''128Mi'')],
          c_liveness_probe =
            \<lparr>probe_path = ''/health'', probe_port = port,
             initial_delay_seconds = 30, period_seconds = 10\<rparr>,
          c_readiness_probe =
            \<lparr>probe_path = ''/health'', probe_port = port,
             initial_delay_seconds = 5, period_seconds = 5\<rparr>\<rparr>]\<rparr>"

definition create_deployment ::
  "env \<Rightarrow> string \<Rightarrow> string option \<Rightarrow> string \<Rightarrow> int \<Rightarrow> int \<Rightarrow> string option \<Rightarrow> string option
   \<Rightarrow> (string \<times> string) list option \<Rightarrow> (string \<times> string) list option \<Rightarrow> world \<Rightarrow> bool \<times> world" where
  "create_deployment en name namespace img port replicas cpu_limit memory_limit env_vars labels w =
     (if \<not> is_initialized en then (False, emit (Log_error ''Kubernetes not available'') w)
      else
        case create_namespace en namespace w of (ignored, w1) \<Rightarrow>
          let deployment = deployment_manifest name namespace img port replicas
                             cpu_limit memory_limit env_vars labels;
              w2 = emit (Create_namespaced_deployment namespace deployment) w1
          in case create_namespaced_deployment_r en of
               Returns u \<Rightarrow> (True, w2)
             | Raises_ApiException c \<Rightarrow> (False, emit (Log_error ''Failed to create deployment'') w2)
             | Raises msg \<Rightarrow> (False, emit (Log_error ''Failed to create deployment'') w2))"

definition service_manifest ::
  "string \<Rightarrow> string option \<Rightarrow> int \<Rightarrow> int \<Rightarrow> string \<Rightarrow> (string \<times> string) list option \<Rightarrow> V1Service" where
  "service_manifest name namespace port target_port service_type labels =
     \<lparr>sv_name = name @ ''-service'',
      sv_namespace = namespace,
      sv_labels = dict_merge [(''app'', name), (''managed-by'', ''mcp-hub'')]
                    (case labels of None \<Rightarrow> [] | Some ls \<Rightarrow> ls),
      sv_selector = [(''app'', name)],
      sv_port = port,
      sv_target_port = target_port,
      sv_protocol = ''TCP'',
      sv_type = service_type\<rparr>"

definition create_service ::
  "env \<Rightarrow> string \<Rightarrow> string option \<Rightarrow> int \<Rightarrow> int \<Rightarrow> string \<Rightarrow> (string \<times> string) list option
   \<Rightarrow> world \<Rightarrow> bool \<times> world" where
  "create_service en name namespace port target_port service_type labels w =
     (if \<not> is_initialized en then (False, emit (Log_error ''Kubernetes not available'') w)
      else
        let service = service_manifest name namespace port target_port service_type labels;
            w1 = emit (Create_namespaced_service namespace service) w
        in case create_namespaced_service_r en of
             Returns u \<Rightarrow> (True, w1)
           | Raises_ApiException c \<Rightarrow> (False, emit (Log_error ''Failed to create service'') w1)
           | Raises msg \<Rightarrow> (False, emit (Log_error ''Failed to create service'') w1))"

definition k8s_scale_deployment ::
  "env \<Rightarrow> string option \<Rightarrow> string option \<Rightarrow> int \<Rightarrow> world \<Rightarrow> bool \<times> world" where
  "k8s_scale_deployment en name namespace replicas w =
     (if \<not> is_initialized en then (False, w)
      else
        let w1 = emit (Patch_namespaced_deployment_scale name namespace replicas) w
        in case patch_namespaced_deployment_scale_r en of
             Returns u \<Rightarrow> (True, w1)
           | Raises_ApiException c \<Rightarrow> (False, emit (Log_error ''Failed to scale deployment'') w1)
           | Raises msg \<Rightarrow> (False, emit (Log_error ''Failed to scale deployment'') w1))"

text \<open>
  \<^verbatim>\<open>KubernetesManager.delete_deployment\<close>: the deployment, then its service; a 404 from
  either call is passed over, anything else ends the method with \<^verbatim>\<open>False\<close>.
\<close>

definition k8s_delete_deployment ::
  "env \<Rightarrow> string option \<Rightarrow> string option \<Rightarrow> world \<Rightarrow> bool \<times> world" where
  "k8s_delete_deployment en name namespace w =
     (if \<not> is_initialized en then (False, w)
      else
        let w1 = emit (Delete_namespaced_deployment name namespace) w;
            failed = (\<lambda>v. (False, emit (Log_error ''Failed to delete deployment'') v));
            delete_service = (\<lambda>v.
              let w2 = emit (Delete_namespaced_service (fmt_opt name @ ''-service'') namespace) v
              in case delete_namespaced_service_r en of
                   Returns u \<Rightarrow> (True, w2)
                 | Raises_ApiException c \<Rightarrow> if c \<noteq> 404 then failed w2 else (True, w2)
                 | Raises msg \<Rightarrow> failed w2)
        in case delete_namespaced_deployment_r en of
             Returns u \<Rightarrow> delete_service w1
           | Raises_ApiException c \<Rightarrow> if c \<noteq> 404 then failed w1 else delete_service w1
           | Raises msg \<Rightarrow> failed w1)"

section \<open>DeploymentManager: the readiness poll loop\<close>

definition service_url :: "Deployment \<Rightarrow> string" where
  "service_url d =
     ''http://'' @ fmt_opt (d_service_name d) @ ''.'' @ fmt_opt (d_namespace d)
       @ ''.svc.cluster.local:'' @ str_int (d_port d)"

definition progressing_false :: "V1DeploymentCondition \<Rightarrow> bool" where
  "progressing_false c \<longleftrightarrow> cond_type c = ''Progressing'' \<and> cond_status c = ''False''"

lemma clock_emit [simp]: "clock (emit e w) = clock w"
  by (simp add: emit_def)

lemma clock_sleep: "clock w + secs \<le> clock (sleep en secs w)"
  by (simp add: sleep_def)

lemma clock_get_deployment_status:
  "clock w \<le> clock (snd (get_deployment_status en name namespace w))"
  by (simp add: get_deployment_status_def Let_def split: api.splits)

text \<open>
  \<^verbatim>\<open>_wait_for_deployment_ready\<close>, from the first test of its \<^verbatim>\<open>while True\<close> on;
  \<open>start_time\<close> is the clock read before the loop. It returns the instance as the loop
  left it and whether the commit at its exit raised.
\<close>

function wait_loop ::
  "env \<Rightarrow> int \<Rightarrow> int \<Rightarrow> Deployment \<Rightarrow> world \<Rightarrow> outcome \<times> Deployment \<times> world" where
  "wait_loop en start_time timeout_seconds d w =
     (if clock w - start_time > timeout_seconds then
        (let d' = d\<lparr>d_status := FAILED, d_error_message := Some ''Deployment timeout''\<rparr>
         in case commit en d' w of (r, w') \<Rightarrow> (r, d', w'))
      else
        case get_deployment_status en (d_deployment_name d) (d_namespace d) w of
          (None, w1) \<Rightarrow> wait_loop en start_time timeout_seconds d (sleep en 10 w1)
        | (Some status, w1) \<Rightarrow>
            if Some (st_ready_replicas status) = st_replicas status \<and> st_ready_replicas status > 0 then
              (let d' = d\<lparr>d_status := RUNNING, d_external_url := Some (service_url d)\<rparr>
               in case commit en d' w1 of (r, w') \<Rightarrow> (r, d', w'))
            else
              (case find progressing_false (st_conditions status) of
                 Some condition \<Rightarrow>
                   (let d' = d\<lparr>d_status := FAILED, d_error_message := cond_message condition\<rparr>
                    in case commit en d' w1 of (r, w') \<Rightarrow> (r, d', w'))
               | None \<Rightarrow> wait_loop en start_time timeout_seconds d (sleep en 10 w1)))"
  by pat_completeness auto
termination
proof (relation "measure (\<lambda>(en, start_time, timeout_seconds, d, w).
                   nat (start_time + timeout_seconds + 1 - clock w))", goal_cases)
  case 1
  show ?case by simp
next
  case (2 en start_time timeout_seconds d w x w1)
  have "clock w \<le> clock w1"
    using clock_get_deployment_status [of w en "d_deployment_name d" "d_namespace d"] 2(2)
    by (metis snd_conv)
  moreover have "clock w1 + 10 \<le> clock (sleep en 10 w1)" by (rule clock_sleep)
  ultimately show ?case using 2(1) by simp
next
  case (3 en start_time timeout_seconds d w x w1 status)
  have "clock w \<le> clock w1"
    using clock_get_deployment_status [of w en "d_deployment_name d" "d_namespace d"] 3(2)
    by (metis snd_conv)
  moreover have "clock w1 + 10 \<le> clock (sleep en 10 w1)" by (rule clock_sleep)
  ultimately show ?case using 3(1) by simp
qed

declare wait_loop.simps [simp del]

definition wait_for_deployment_ready ::
  "env \<Rightarrow> Deployment \<Rightarrow> world \<Rightarrow> outcome \<times> Deployment \<times> world" where
  "wait_for_deployment_ready en d w = wait_loop en (clock w) 300 d w"

section \<open>DeploymentManager: the operations\<close>

definition or_default :: "string option \<Rightarrow> string \<Rightarrow> string" where
  \<comment> \<open>\<^verbatim>\<open>value or default\<close> on an optional string: \<^verbatim>\<open>None\<close> and the empty string give the default\<close>
  "or_default v dflt = (case v of None \<Rightarrow> dflt | Some s \<Rightarrow> if s = [] then dflt else s)"

text \<open>
  The \<^verbatim>\<open>try\<close> block of \<^verbatim>\<open>deploy_mcp_server\<close>. It returns whether it ended or raised,
  and the instance the session holds at that moment. The methods of
  \<^verbatim>\<open>KubernetesManager\<close> catch what the client raises, so only the database calls raise
  here.
\<close>

definition deploy_body ::
  "env \<Rightarrow> UUID \<Rightarrow> MCPServer \<Rightarrow> world \<Rightarrow> outcome \<times> Deployment option \<times> world" where
  "deploy_body en deployment_id mcp_server w =
     (case select_deployment en deployment_id None w of
        (Inl e, w1) \<Rightarrow> (Raised e, None, w1)
      | (Inr None, w1) \<Rightarrow> (Done, None, emit (Log_error ''Deployment not found'') w1)
      | (Inr (Some d0), w1) \<Rightarrow>
          let d1 = d0\<lparr>d_status := DEPLOYING\<rparr>
          in (case commit en d1 w1 of
                (Raised e, w2) \<Rightarrow> (Raised e, Some d1, w2)
              | (Done, w2) \<Rightarrow>
                  let deployment_name = ''mcp-'' @ d_name d1;
                      d2 = d1\<lparr>d_deployment_name := Some deployment_name,
                              d_service_name := Some (deployment_name @ ''-service''),
                              d_container_name := Some deployment_name\<rparr>;
                      image_name = fmt_opt (s_docker_image_name mcp_server) @ '':''
                                     @ fmt_opt (s_docker_image_tag mcp_server)
                  in (case create_deployment en deployment_name (d_namespace d2) image_name
                             (d_port d2) (d_replicas d2) (d_cpu_limit d2) (d_memory_limit d2)
                             (d_environment_variables d2)
                             (Some [(''mcp-server-id'', s_id mcp_server),
                                    (''deployment-id'', d_id d2),
                                    (''version'', or_default (s_docker_image_tag mcp_server) ''latest'')])
                             w2 of
                        (success, w3) \<Rightarrow>
                          if \<not> success then
                            (let d3 = d2\<lparr>d_status := FAILED,
                                         d_error_message := Some ''Failed to create Kubernetes deployment''\<rparr>
                             in case commit en d3 w3 of (r, w4) \<Rightarrow> (r, Some d3, w4))
                          else
                            (case create_service en deployment_name (d_namespace d2) (d_port d2)
                                    (d_port d2) ''ClusterIP'' None w3 of
                               (service_success, w4) \<Rightarrow>
                                 if \<not> service_success then
                                   (let d3 = d2\<lparr>d_status := FAILED,
                                                d_error_message := Some ''Failed to create Kubernetes service''\<rparr>
                                    in case commit en d3 w4 of (r, w5) \<Rightarrow> (r, Some d3, w5))
                                 else
                                   (case wait_for_deployment_ready en d2 w4 of
                                      (r, d3, w5) \<Rightarrow> (r, Some d3, w5))))))"

text \<open>
  The \<^verbatim>\<open>except Exception\<close> clause of \<^verbatim>\<open>deploy_mcp_server\<close>: fetch the row again, mark it
  FAILED with the text of the exception, commit; when that raises too, only log.
\<close>

definition deploy_handler :: "env \<Rightarrow> UUID \<Rightarrow> string \<Rightarrow> Deployment option \<Rightarrow> world \<Rightarrow> outcome \<times> world" where
  "deploy_handler en deployment_id e held w =
     (let w1 = emit (Log_error ''Error during MCP server deployment'') w
      in case select_deployment en deployment_id held w1 of
           (Inl db_error, w2) \<Rightarrow> (Done, emit (Log_error ''Failed to update deployment error status'') w2)
         | (Inr None, w2) \<Rightarrow> (Done, w2)
         | (Inr (Some d), w2) \<Rightarrow>
             (case commit en (d\<lparr>d_status := FAILED, d_error_message := Some e\<rparr>) w2 of
                (Raised db_error, w3) \<Rightarrow>
                  (Done, emit (Log_error ''Failed to update deployment error status'') w3)
              | (Done, w3) \<Rightarrow> (Done, w3)))"

definition deploy_mcp_server :: "env \<Rightarrow> UUID \<Rightarrow> MCPServer \<Rightarrow> world \<Rightarrow> outcome \<times> world" where
  "deploy_mcp_server en deployment_id mcp_server w =
     (case deploy_body en deployment_id mcp_server w of
        (Done, held, w') \<Rightarrow> (Done, w')
      | (Raised e, held, w') \<Rightarrow> deploy_handler en deployment_id e held w')"

text \<open>
  The other operations have the same shape, a \<^verbatim>\<open>try\<close> block and an \<^verbatim>\<open>except Exception\<close>
  clause; their clause logs the exception and does nothing else. \<^verbatim>\<open>update_deployment\<close>
  deletes the workload, sleeps 5 seconds and runs \<^verbatim>\<open>deploy_mcp_server\<close> again, in a
  session of its own.
\<close>

definition update_body :: "env \<Rightarrow> UUID \<Rightarrow> world \<Rightarrow> outcome \<times> world" where
  "update_body en deployment_id w =
     (case select_deployment en deployment_id None w of
        (Inl e, w1) \<Rightarrow> (Raised e, w1)
      | (Inr None, w1) \<Rightarrow> (Done, emit (Log_error ''Deployment not found'') w1)
      | (Inr (Some d), w1) \<Rightarrow>
          (case k8s_delete_deployment en (d_deployment_name d) (d_namespace d) w1 of
             (ignored, w2) \<Rightarrow>
               let w3 = sleep en 5 w2
               in (case select_mcp_server en (d_mcp_server_id d) w3 of
                     (Inl e, w4) \<Rightarrow> (Raised e, w4)
                   | (Inr None, w4) \<Rightarrow>
                       commit en (d\<lparr>d_status := FAILED, d_error_message := Some ''MCP server not found''\<rparr>) w4
                   | (Inr (Some mcp_server), w4) \<Rightarrow> deploy_mcp_server en deployment_id mcp_server w4)))"

definition update_deployment :: "env \<Rightarrow> UUID \<Rightarrow> world \<Rightarrow> outcome \<times> world" where
  "update_deployment en deployment_id w =
     (case update_body en deployment_id w of
        (Done, w') \<Rightarrow> (Done, w')
      | (Raised e, w') \<Rightarrow> (Done, emit (Log_error ''Error updating deployment'') w'))"

definition scale_body :: "env \<Rightarrow> UUID \<Rightarrow> int \<Rightarrow> world \<Rightarrow> outcome \<times> world" where
  "scale_body en deployment_id replicas w =
     (case select_deployment en deployment_id None w of
        (Inl e, w1) \<Rightarrow> (Raised e, w1)
      | (Inr None, w1) \<Rightarrow> (Done, emit (Log_error ''Deployment not found'') w1)
      | (Inr (Some d), w1) \<Rightarrow>
          (case k8s_scale_deployment en (d_deployment_name d) (d_namespace d) replicas w1 of
             (success, w2) \<Rightarrow>
               if success then
                 commit en (d\<lparr>d_status := RUNNING, d_error_message := None\<rparr>) w2
               else
                 commit en (d\<lparr>d_status := FAILED,
                              d_error_message := Some ''Failed to scale deployment''\<rparr>) w2))"

definition scale_deployment :: "env \<Rightarrow> UUID \<Rightarrow> int \<Rightarrow> world \<Rightarrow> outcome \<times> world" where
  "scale_deployment en deployment_id replicas w =
     (case scale_body en deployment_id replicas w of
        (Done, w') \<Rightarrow> (Done, w')
      | (Raised e, w') \<Rightarrow> (Done, emit (Log_error ''Error scaling deployment'') w'))"

definition stop_body :: "env \<Rightarrow> UUID \<Rightarrow> world \<Rightarrow> outcome \<times> world" where
  "stop_body en deployment_id w =
     (case select_deployment en deployment_id None w of
        (Inl e, w1) \<Rightarrow> (Raised e, w1)
      | (Inr None, w1) \<Rightarrow> (Done, emit (Log_error ''Deployment not found'') w1)
      | (Inr (Some d), w1) \<Rightarrow>
          (case k8s_scale_deployment en (d_deployment_name d) (d_namespace d) 0 w1 of
             (success, w2) \<Rightarrow>
               if success then
                 commit en (d\<lparr>d_status := STOPPED, d_replicas := 0, d_error_message := None\<rparr>) w2
               else
                 commit en (d\<lparr>d_status := FAILED,
                              d_error_message := Some ''Failed to stop deployment''\<rparr>) w2))"

definition stop_deployment :: "env \<Rightarrow> UUID \<Rightarrow> world \<Rightarrow> outcome \<times> world" where
  "stop_deployment en deployment_id w =
     (case stop_body en deployment_id w of
        (Done, w') \<Rightarrow> (Done, w')
      | (Raised e, w') \<Rightarrow> (Done, emit (Log_error ''Error stopping deployment'') w'))"

definition delete_body :: "env \<Rightarrow> UUID \<Rightarrow> world \<Rightarrow> outcome \<times> world" where
  "delete_body en deployment_id w =
     (case select_deployment en deployment_id None w of
        (Inl e, w1) \<Rightarrow> (Raised e, w1)
      | (Inr None, w1) \<Rightarrow> (Done, emit (Log_error ''Deployment not found'') w1)
      | (Inr (Some d), w1) \<Rightarrow>
          (case k8s_delete_deployment en (d_deployment_name d) (d_namespace d) w1 of
             (success, w2) \<Rightarrow>
               if success then
                 (case db_call en w2 of
                    (Raised e, w3) \<Rightarrow> (Raised e, w3)
                  | (Done, w3) \<Rightarrow> commit_delete en d w3)
               else
                 commit en (d\<lparr>d_status := FAILED,
                              d_error_message := Some ''Failed to delete deployment from Kubernetes''\<rparr>) w2))"

definition delete_deployment :: "env \<Rightarrow> UUID \<Rightarrow> world \<Rightarrow> outcome \<times> world" where
  "delete_deployment en deployment_id w =
     (case delete_body en deployment_id w of
        (Done, w') \<Rightarrow> (Done, w')
      | (Raised e, w') \<Rightarrow> (Done, emit (Log_error ''Error deleting deployment'') w'))"

section \<open>The request handlers\<close>

text \<open>
  The handlers of \<^verbatim>\<open>api/v1/deployments.py\<close> that start an operation. A handler answers
  with a response, with an \<^verbatim>\<open>HTTPException\<close> (status code and detail), or lets an
  exception of the database session through. The details are the texts
  \<^verbatim>\<open>MCP server not found\<close>, \<^verbatim>\<open>MCP server must be in READY status, currently: ...\<close>,
  \<^verbatim>\<open>MCP server does not have a Docker image\<close> and \<^verbatim>\<open>Deployment not found\<close>; the request
  body has passed the schema's validation, except for the range of \<^verbatim>\<open>replicas\<close> in a
  scale request, which is checked here as the schema does (0 to 10). The id of a new
  row comes from the base class of the models, which is not part of the sources: it
  is a parameter.
\<close>

datatype detail =
    MCP_server_not_found
  | MCP_server_not_ready MCPServerStatus
  | MCP_server_without_image
  | Deployment_not_found
  | Validation_error

datatype 'a response = Response 'a | HTTPException nat detail | Unhandled string

record DeploymentCreateRequest =
  rq_mcp_server_id :: UUID
  rq_name :: string
  rq_namespace :: "string option"
  rq_cpu_limit :: "string option"
  rq_memory_limit :: "string option"
  rq_replicas :: "int option"
  rq_port :: "int option"
  rq_environment_variables :: "(string \<times> string) list option"
  rq_health_check_path :: "string option"

definition or_default_int :: "int option \<Rightarrow> int \<Rightarrow> int" where
  "or_default_int v dflt = (case v of None \<Rightarrow> dflt | Some n \<Rightarrow> if n = 0 then dflt else n)"

definition select_owned_mcp_server ::
  "env \<Rightarrow> UUID \<Rightarrow> UUID \<Rightarrow> world \<Rightarrow> (string + MCPServer option) \<times> world" where
  "select_owned_mcp_server en server_id user_id w =
     (case db_fault en (db_ops w) of
        Some msg \<Rightarrow> (Inl msg, w\<lparr>db_ops := Suc (db_ops w)\<rparr>)
      | None \<Rightarrow>
          (Inr (case mcp_servers w server_id of
                  None \<Rightarrow> None
                | Some row \<Rightarrow> if s_owner_id row = user_id then Some row else None),
           w\<lparr>db_ops := Suc (db_ops w)\<rparr>))"

definition select_owned_deployment ::
  "env \<Rightarrow> UUID \<Rightarrow> UUID \<Rightarrow> world \<Rightarrow> (string + Deployment option) \<times> world" where
  "select_owned_deployment en deployment_id user_id w =
     (case db_fault en (db_ops w) of
        Some msg \<Rightarrow> (Inl msg, w\<lparr>db_ops := Suc (db_ops w)\<rparr>)
      | None \<Rightarrow>
          (Inr (case deployments w deployment_id of
                  None \<Rightarrow> None
                | Some row \<Rightarrow> if d_owner_id row = user_id then Some row else None),
           w\<lparr>db_ops := Suc (db_ops w)\<rparr>))"

definition add_task :: "task \<Rightarrow> world \<Rightarrow> world" where
  "add_task t w = w\<lparr>background_tasks := background_tasks w @ [t]\<rparr>"

definition create_deployment_route ::
  "env \<Rightarrow> UUID \<Rightarrow> DeploymentCreateRequest \<Rightarrow> UUID \<Rightarrow> world \<Rightarrow> Deployment response \<times> world" where
  "create_deployment_route en new_id deployment_request current_user_id w =
     (case select_owned_mcp_server en (rq_mcp_server_id deployment_request) current_user_id w of
        (Inl e, w1) \<Rightarrow> (Unhandled e, w1)
      | (Inr None, w1) \<Rightarrow> (HTTPException 404 MCP_server_not_found, w1)
      | (Inr (Some mcp_server), w1) \<Rightarrow>
          if s_status mcp_server \<noteq> MCP_READY then
            (HTTPException 400 (MCP_server_not_ready (s_status mcp_server)), w1)
          else if s_docker_image_name mcp_server = None \<or> s_docker_image_name mcp_server = Some [] then
            (HTTPException 400 MCP_server_without_image, w1)
          else
            (let deployment =
                   \<lparr>d_id = new_id,
                    d_name = rq_name deployment_request,
                    d_status = PENDING,
                    d_container_name = None,
                    d_container_id = None,
                    d_namespace = Some (or_default (rq_namespace deployment_request) ''mcphub''),
                    d_deployment_name = None,
                    d_service_name = None,
                    d_cpu_limit = Some (or_default (rq_cpu_limit deployment_request) ''500m''),
                    d_memory_limit = Some (or_default (rq_memory_limit deployment_request) ''512Mi''),
                    d_replicas = or_default_int (rq_replicas deployment_request) 1,
                    d_port = or_default_int (rq_port deployment_request) 8080,
                    d_external_url = None,
                    d_environment_variables =
                      Some (case rq_environment_variables deployment_request of
                              None \<Rightarrow> [] | Some kvs \<Rightarrow> kvs),
                    d_deployment_logs = None,
                    d_error_message = None,
                    d_health_check_path = or_default (rq_health_check_path deployment_request) ''/health'',
                    d_mcp_server_id = s_id mcp_server,
                    d_owner_id = current_user_id\<rparr>
             in (case commit en deployment w1 of
                   (Raised e, w2) \<Rightarrow> (Unhandled e, w2)
                 | (Done, w2) \<Rightarrow>
                     (case db_call en w2 of
                        (Raised e, w3) \<Rightarrow> (Unhandled e, w3)
                      | (Done, w3) \<Rightarrow>
                          (Response deployment,
                           add_task (Deploy_task (d_id deployment) mcp_server) w3)))))"

definition scale_deployment_route ::
  "env \<Rightarrow> UUID \<Rightarrow> int \<Rightarrow> UUID \<Rightarrow> world \<Rightarrow> Deployment response \<times> world" where
  "scale_deployment_route en deployment_id replicas current_user_id w =
     (if replicas < 0 \<or> replicas > 10 then (HTTPException 422 Validation_error, w)
      else
        case select_owned_deployment en deployment_id current_user_id w of
          (Inl e, w1) \<Rightarrow> (Unhandled e, w1)
        | (Inr None, w1) \<Rightarrow> (HTTPException 404 Deployment_not_found, w1)
        | (Inr (Some d0), w1) \<Rightarrow>
            let d = d0\<lparr>d_replicas := replicas, d_status := SCALING\<rparr>
            in (case commit en d w1 of
                  (Raised e, w2) \<Rightarrow> (Unhandled e, w2)
                | (Done, w2) \<Rightarrow>
                    (case db_call en w2 of
                       (Raised e, w3) \<Rightarrow> (Unhandled e, w3)
                     | (Done, w3) \<Rightarrow> (Response d, add_task (Scale_task (d_id d) replicas) w3))))"

definition stop_deployment_route ::
  "env \<Rightarrow> UUID \<Rightarrow> UUID \<Rightarrow> world \<Rightarrow> Deployment response \<times> world" where
  "stop_deployment_route en deployment_id current_user_id w =
     (case select_owned_deployment en deployment_id current_user_id w of
        (Inl e, w1) \<Rightarrow> (Unhandled e, w1)
      | (Inr None, w1) \<Rightarrow> (HTTPException 404 Deployment_not_found, w1)
      | (Inr (Some d0), w1) \<Rightarrow>
          let d = d0\<lparr>d_status := STOPPING\<rparr>
          in (case commit en d w1 of
                (Raised e, w2) \<Rightarrow> (Unhandled e, w2)
              | (Done, w2) \<Rightarrow> (Response d, add_task (Stop_task (d_id d)) w2)))"

text \<open>
  The delete handler queues its task before it commits STOPPING; a task queued by a
  handler that then raises is never run, so the model adds it after the commit.
\<close>

definition delete_deployment_route ::
  "env \<Rightarrow> UUID \<Rightarrow> UUID \<Rightarrow> world \<Rightarrow> Deployment response \<times> world" where
  "delete_deployment_route en deployment_id current_user_id w =
     (case select_owned_deployment en deployment_id current_user_id w of
        (Inl e, w1) \<Rightarrow> (Unhandled e, w1)
      | (Inr None, w1) \<Rightarrow> (HTTPException 404 Deployment_not_found, w1)
      | (Inr (Some d0), w1) \<Rightarrow>
          let d = d0\<lparr>d_status := STOPPING\<rparr>
          in (case commit en d w1 of
                (Raised e, w2) \<Rightarrow> (Unhandled e, w2)
              | (Done, w2) \<Rightarrow> (Response d, add_task (Delete_task (d_id d)) w2)))"

text \<open>The framework runs the tasks of a request after its response, one after the other.\<close>

fun run_task :: "env \<Rightarrow> task \<Rightarrow> world \<Rightarrow> outcome \<times> world" where
  "run_task en (Deploy_task deployment_id mcp_server) w = deploy_mcp_server en deployment_id mcp_server w"
| "run_task en (Update_task deployment_id) w = update_deployment en deployment_id w"
| "run_task en (Scale_task deployment_id replicas) w = scale_deployment en deployment_id replicas w"
| "run_task en (Stop_task deployment_id) w = stop_deployment en deployment_id w"
| "run_task en (Delete_task deployment_id) w = delete_deployment en deployment_id w"

fun run_tasks :: "env \<Rightarrow> task list \<Rightarrow> world \<Rightarrow> outcome \<times> world" where
  "run_tasks en [] w = (Done, w)"
| "run_tasks en (t # ts) w =
     (case run_task en t w of
        (Done, w') \<Rightarrow> run_tasks en ts w'
      | (Raised e, w') \<Rightarrow> (Raised e, w'))"

definition run_background_tasks :: "env \<Rightarrow> world \<Rightarrow> outcome \<times> world" where
  "run_background_tasks en w = run_tasks en (background_tasks w) (w\<lparr>background_tasks := []\<rparr>)"

section \<open>MCPServerGenerator\<close>

text \<open>
  \<^verbatim>\<open>generate_mcp_server\<close> of the generator service. The template engine and the Docker
  daemon are answers of the environment: whether rendering the template raised, and
  the dictionary \<^verbatim>\<open>DockerBuilder.build_image\<close> returns (it catches every exception
  itself). The notification over the web socket changes nothing here and is left out.
\<close>

record build_dict =
  b_success :: bool
  b_error :: "string option"
  b_logs :: string

record generator_env =
  gen_db_fault :: "nat \<Rightarrow> string option"
  output_base_dir :: string
  docker_namespace :: string
  generate_from_template_r :: "string + nat"
    \<comment> \<open>the text of the exception raised in \<^verbatim>\<open>_generate_code\<close>, or the number of files written\<close>
  build_image_r :: build_dict

record generation_result =
  gr_success :: bool
  gr_output_directory :: "string option"
  gr_error :: "string option"
  gr_logs :: string

record build_result =
  br_success :: bool
  br_image_name :: string
  br_image_tag :: string
  br_logs :: string
  br_error :: "string option"

definition commit_server :: "generator_env \<Rightarrow> MCPServer \<Rightarrow> world \<Rightarrow> outcome \<times> world" where
  "commit_server ge s w =
     (case gen_db_fault ge (db_ops w) of
        Some msg \<Rightarrow> (Raised msg, w\<lparr>db_ops := Suc (db_ops w)\<rparr>)
      | None \<Rightarrow>
          (Done, emit (Commit_server s)
             (w\<lparr>db_ops := Suc (db_ops w), mcp_servers := (mcp_servers w)(s_id s \<mapsto> s)\<rparr>)))"

definition select_server ::
  "generator_env \<Rightarrow> UUID \<Rightarrow> MCPServer option \<Rightarrow> world \<Rightarrow> (string + MCPServer option) \<times> world" where
  "select_server ge server_id held w =
     (case gen_db_fault ge (db_ops w) of
        Some msg \<Rightarrow> (Inl msg, w\<lparr>db_ops := Suc (db_ops w)\<rparr>)
      | None \<Rightarrow>
          (Inr (case mcp_servers w server_id of
                  None \<Rightarrow> None
                | Some row \<Rightarrow> (case held of None \<Rightarrow> Some row | Some s \<Rightarrow> Some s)),
           w\<lparr>db_ops := Suc (db_ops w)\<rparr>))"

definition generate_code :: "generator_env \<Rightarrow> MCPServer \<Rightarrow> world \<Rightarrow> generation_result \<times> world" where
  "generate_code ge mcp_server w =
     (let output_dir = output_base_dir ge @ ''/mcp_server_'' @ s_id mcp_server;
          w1 = emit (Generate_from_template output_dir) w
      in case generate_from_template_r ge of
           Inr n_files \<Rightarrow>
             (\<lparr>gr_success = True, gr_output_directory = Some output_dir, gr_error = None,
               gr_logs = ''Generated '' @ str_nat n_files @ '' files successfully''\<rparr>, w1)
         | Inl e \<Rightarrow>
             (\<lparr>gr_success = False, gr_output_directory = None, gr_error = Some e,
               gr_logs = ''Code generation failed: '' @ e\<rparr>, w1))"

definition lower_char :: "char \<Rightarrow> char" where
  \<comment> \<open>\<^verbatim>\<open>str.lower\<close> on an ASCII character\<close>
  "lower_char c =
     (case map_of (zip ''ABCDEFGHIJKLMNOPQRSTUVWXYZ'' ''abcdefghijklmnopqrstuvwxyz'') c of
        Some l \<Rightarrow> l
      | None \<Rightarrow> c)"

definition uuid_hex :: "UUID \<Rightarrow> string" where
  "uuid_hex u = filter (\<lambda>c. c \<noteq> CHR ''-'') u"

definition build_docker_image ::
  "generator_env \<Rightarrow> MCPServer \<Rightarrow> string \<Rightarrow> world \<Rightarrow> build_result \<times> world" where
  "build_docker_image ge mcp_server source_directory w =
     (let image_name = docker_namespace ge @ ''/mcp-server-''
                         @ map (\<lambda>c. if c = CHR '' '' then CHR ''-'' else c)
                             (map lower_char (s_name mcp_server));
          image_tag = ''v'' @ take 8 (uuid_hex (s_id mcp_server));
          w1 = emit (Build_image source_directory image_name image_tag) w;
          built = build_image_r ge
      in (\<lparr>br_success = b_success built, br_image_name = image_name, br_image_tag = image_tag,
            br_logs = b_logs built, br_error = b_error built\<rparr>, w1))"

definition generate_body ::
  "generator_env \<Rightarrow> UUID \<Rightarrow> world \<Rightarrow> outcome \<times> MCPServer option \<times> world" where
  "generate_body ge server_id w =
     (case select_server ge server_id None w of
        (Inl e, w1) \<Rightarrow> (Raised e, None, w1)
      | (Inr None, w1) \<Rightarrow> (Done, None, emit (Log_error ''MCP server not found'') w1)
      | (Inr (Some s0), w1) \<Rightarrow>
          let s1 = s0\<lparr>s_status := MCP_GENERATING\<rparr>
          in (case commit_server ge s1 w1 of
                (Raised e, w2) \<Rightarrow> (Raised e, Some s1, w2)
              | (Done, w2) \<Rightarrow>
                  (case generate_code ge s1 w2 of
                     (generated, w3) \<Rightarrow>
                       if \<not> gr_success generated then
                         (let s2 = s1\<lparr>s_status := MCP_ERROR,
                                      s_error_message := gr_error generated,
                                      s_generation_logs := Some (gr_logs generated)\<rparr>
                          in case commit_server ge s2 w3 of (r, w4) \<Rightarrow> (r, Some s2, w4))
                       else
                         (let s2 = s1\<lparr>s_generated_code_path := gr_output_directory generated,
                                      s_generation_logs := Some (gr_logs generated),
                                      s_status := MCP_BUILDING\<rparr>
                          in (case commit_server ge s2 w3 of
                                (Raised e, w4) \<Rightarrow> (Raised e, Some s2, w4)
                              | (Done, w4) \<Rightarrow>
                                  (case build_docker_image ge s2
                                          (fmt_opt (gr_output_directory generated)) w4 of
                                     (built, w5) \<Rightarrow>
                                       if \<not> br_success built then
                                         (let s3 = s2\<lparr>s_status := MCP_ERROR,
                                                      s_error_message := br_error built,
                                                      s_build_logs := Some (br_logs built)\<rparr>
                                          in case commit_server ge s3 w5 of
                                               (r, w6) \<Rightarrow> (r, Some s3, w6))
                                       else
                                         (let s3 = s2\<lparr>s_docker_image_name := Some (br_image_name built),
                                                      s_docker_image_tag := Some (br_image_tag built),
                                                      s_build_logs := Some (br_logs built),
                                                      s_status := MCP_READY\<rparr>
                                          in case commit_server ge s3 w5 of
                                               (r, w6) \<Rightarrow> (r, Some s3, w6))))))))"

definition generate_handler ::
  "generator_env \<Rightarrow> UUID \<Rightarrow> string \<Rightarrow> MCPServer option \<Rightarrow> world \<Rightarrow> outcome \<times> world" where
  "generate_handler ge server_id e held w =
     (let w1 = emit (Log_error ''Error during MCP server generation'') w
      in case select_server ge server_id held w1 of
           (Inl db_error, w2) \<Rightarrow> (Done, emit (Log_error ''Failed to update server error status'') w2)
         | (Inr None, w2) \<Rightarrow> (Done, w2)
         | (Inr (Some s), w2) \<Rightarrow>
             (case commit_server ge (s\<lparr>s_status := MCP_FAILED, s_error_message := Some e\<rparr>) w2 of
                (Raised db_error, w3) \<Rightarrow>
                  (Done, emit (Log_error ''Failed to update server error status'') w3)
              | (Done, w3) \<Rightarrow> (Done, w3)))"

definition generate_mcp_server :: "generator_env \<Rightarrow> UUID \<Rightarrow> world \<Rightarrow> outcome \<times> world" where
  "generate_mcp_server ge server_id w =
     (case generate_body ge server_id w of
        (Done, held, w') \<Rightarrow> (Done, w')
      | (Raised e, held, w') \<Rightarrow> generate_handler ge server_id e held w')"

section \<open>Example inputs\<close>

text \<open>
  The scenario of the specification: a deployment named \<^verbatim>\<open>demo\<close> of the image
  \<^verbatim>\<open>repo/demo:v1\<close>, port 8080, two replicas, namespace \<^verbatim>\<open>mcphub\<close>.
\<close>

definition demo :: Deployment where
  "demo =
     \<lparr>d_id = ''7d9f2c1e-5a3b-4c8d-9e0f-1a2b3c4d5e6f'', d_name = ''demo'', d_status = PENDING,
      d_container_name = None, d_container_id = None, d_namespace = Some ''mcphub'',
      d_deployment_name = None, d_service_name = None, d_cpu_limit = Some ''500m'',
      d_memory_limit = Some ''512Mi'', d_replicas = 2, d_port = 8080, d_external_url = None,
      d_environment_variables = Some [], d_deployment_logs = None, d_error_message = None,
      d_health_check_path = ''/health'',
      d_mcp_server_id = ''0f8fad5b-d9cb-469f-a165-70867728950e'',
      d_owner_id = ''3b241101-e2bb-4255-8caf-4136c566a962''\<rparr>"

definition demo_named :: Deployment where
  \<comment> \<open>the instance as the poll loop receives it\<close>
  "demo_named =
     demo\<lparr>d_status := DEPLOYING, d_deployment_name := Some ''mcp-demo'',
          d_service_name := Some ''mcp-demo-service'', d_container_name := Some ''mcp-demo''\<rparr>"

definition demo_server :: MCPServer where
  "demo_server =
     \<lparr>s_id = ''0f8fad5b-d9cb-469f-a165-70867728950e'', s_name = ''demo'', s_status = MCP_READY,
      s_generated_code_path = Some ''/tmp/generated/mcp_server_0f8fad5b-d9cb-469f-a165-70867728950e'',
      s_docker_image_name = Some ''repo/demo'', s_docker_image_tag = Some ''v1'',
      s_generation_logs = None, s_build_logs = None, s_error_message = None,
      s_api_registration_id = ''c9bf9e57-1685-4c89-bafb-ff5af830be8a'',
      s_owner_id = ''3b241101-e2bb-4255-8caf-4136c566a962''\<rparr>"

definition reading :: "int \<Rightarrow> int \<Rightarrow> V1DeploymentCondition list \<Rightarrow> V1DeploymentRead" where
  \<comment> \<open>a status read: replicas asked for, replicas ready, conditions\<close>
  "reading n_spec n_ready conds =
     \<lparr>spec_replicas = Some n_spec, status_ready_replicas = Some n_ready,
      status_available_replicas = Some n_ready, status_updated_replicas = Some n_spec,
      status_conditions = Some conds\<rparr>"

definition cluster :: "(nat \<Rightarrow> V1DeploymentRead api) \<Rightarrow> env" where
  \<comment> \<open>a cluster and a database that answer every call; the status reads are given\<close>
  "cluster reads =
     \<lparr>db_fault = (\<lambda>i. None), is_initialized = True, read_namespace_r = Returns (),
      create_namespace_r = Returns (), create_namespaced_deployment_r = Returns (),
      create_namespaced_service_r = Returns (), read_namespaced_deployment_r = reads,
      read_latency = (\<lambda>n. 0), oversleep = (\<lambda>n. 0),
      patch_namespaced_deployment_scale_r = Returns (),
      delete_namespaced_deployment_r = Returns (), delete_namespaced_service_r = Returns ()\<rparr>"

definition world0 :: world where
  "world0 =
     \<lparr>deployments = [''7d9f2c1e-5a3b-4c8d-9e0f-1a2b3c4d5e6f'' \<mapsto> demo],
      mcp_servers = [''0f8fad5b-d9cb-469f-a165-70867728950e'' \<mapsto> demo_server],
      background_tasks = [], clock = 0, db_ops = 0, polls = 0, sleeps = 0, trace = []\<rparr>"


definition db_outage :: env where
  \<comment> \<open>the database is lost after the first two calls of an operation\<close>
  "db_outage = (cluster (\<lambda>n. Returns (reading 2 2 [])))
     \<lparr>db_fault := (\<lambda>i. if 2 \<le> i then Some ''connection lost'' else None)\<rparr>"


definition db_hiccup :: env where
  \<comment> \<open>the third database call raises, the others succeed\<close>
  "db_hiccup = (cluster (\<lambda>n. Returns (reading 2 2 [])))
     \<lparr>db_fault := (\<lambda>i. if i = 2 then Some ''connection lost'' else None)\<rparr>"

definition demo_running :: Deployment where
  \<comment> \<open>the demo deployment after a successful Deploy\<close>
  "demo_running =
     demo_named\<lparr>d_status := RUNNING,
       d_external_url := Some ''http://mcp-demo-service.mcphub.svc.cluster.local:8080''\<rparr>"

definition world_running :: world where
  "world_running = world0\<lparr>deployments := [''7d9f2c1e-5a3b-4c8d-9e0f-1a2b3c4d5e6f'' \<mapsto> demo_running]\<rparr>"

definition demo_request :: DeploymentCreateRequest where
  "demo_request =
     \<lparr>rq_mcp_server_id = ''0f8fad5b-d9cb-469f-a165-70867728950e'', rq_name = ''demo'',
      rq_namespace = Some ''mcphub'', rq_cpu_limit = Some ''500m'', rq_memory_limit = Some ''512Mi'',
      rq_replicas = Some 2, rq_port = Some 8080, rq_environment_variables = Some [],
      rq_health_check_path = Some ''/health''\<rparr>"

definition world_building :: world where
  \<comment> \<open>the server is still being built and no deployment exists\<close>
  "world_building =
     world0\<lparr>deployments := Map.empty,
       mcp_servers := [''0f8fad5b-d9cb-469f-a165-70867728950e'' \<mapsto>
         demo_server\<lparr>s_status := MCP_BUILDING, s_docker_image_name := None, s_docker_image_tag := None\<rparr>]\<rparr>"

definition world_imageless :: world where
  \<comment> \<open>the server is READY but has no image name\<close>
  "world_imageless =
     world0\<lparr>deployments := Map.empty,
       mcp_servers := [''0f8fad5b-d9cb-469f-a165-70867728950e'' \<mapsto>
         demo_server\<lparr>s_docker_image_name := None\<rparr>]\<rparr>"

definition demo_custom :: Deployment where
  \<comment> \<open>the demo deployment, asked for with the health check path \<^verbatim>\<open>/healthz\<close>\<close>
  "demo_custom = demo\<lparr>d_health_check_path := ''/healthz''\<rparr>"

definition world_custom :: world where
  "world_custom = world0\<lparr>deployments := [''7d9f2c1e-5a3b-4c8d-9e0f-1a2b3c4d5e6f'' \<mapsto> demo_custom]\<rparr>"

definition demo_pending :: MCPServer where
  \<comment> \<open>a server as the registration request creates it\<close>
  "demo_pending =
     \<lparr>s_id = ''0f8fad5b-d9cb-469f-a165-70867728950e'', s_name = ''Demo API'', s_status = MCP_PENDING,
      s_generated_code_path = None, s_docker_image_name = None, s_docker_image_tag = None,
      s_generation_logs = None, s_build_logs = None, s_error_message = None,
      s_api_registration_id = ''c9bf9e57-1685-4c89-bafb-ff5af830be8a'',
      s_owner_id = ''3b241101-e2bb-4255-8caf-4136c566a962''\<rparr>"

definition world_pending :: world where
  "world_pending =
     \<lparr>deployments = Map.empty,
      mcp_servers = [''0f8fad5b-d9cb-469f-a165-70867728950e'' \<mapsto> demo_pending],
      background_tasks = [], clock = 0, db_ops = 0, polls = 0, sleeps = 0, trace = []\<rparr>"

definition builder :: "(string + nat) \<Rightarrow> build_dict \<Rightarrow> generator_env" where
  \<comment> \<open>a generator whose database answers every call; the template and the build are given\<close>
  "builder rendered built =
     \<lparr>gen_db_fault = (\<lambda>i. None), output_base_dir = ''/tmp/generated'', docker_namespace = ''mcphub'',
      generate_from_template_r = rendered, build_image_r = built\<rparr>"

section \<open>The readiness poll loop\<close>

lemma deployments_emit [simp]: "deployments (emit e w) = deployments w"
  by (simp add: emit_def)

lemma deployments_sleep [simp]: "deployments (sleep en secs w) = deployments w"
  by (simp add: sleep_def)

lemma deployments_get_deployment_status:
  "get_deployment_status en name namespace w = (st, w1) \<Longrightarrow> deployments w1 = deployments w"
  by (auto simp add: get_deployment_status_def Let_def split: if_splits api.splits)

lemma commit_store:
  "commit en d w = (Done, w') \<Longrightarrow> deployments w' (d_id d) = Some d"
  by (auto simp add: commit_def emit_def split: option.splits)

lemma clock_commit: "clock (snd (commit en d w)) = clock w"
  by (simp add: commit_def split: option.splits)

text \<open>One round of the loop, by the branch it takes.\<close>

lemma wait_loop_timeout:
  "clock w - start_time > T \<Longrightarrow>
   wait_loop en start_time T d w =
     (fst (commit en (d\<lparr>d_status := FAILED, d_error_message := Some ''Deployment timeout''\<rparr>) w),
      d\<lparr>d_status := FAILED, d_error_message := Some ''Deployment timeout''\<rparr>,
      snd (commit en (d\<lparr>d_status := FAILED, d_error_message := Some ''Deployment timeout''\<rparr>) w))"
  by (subst wait_loop.simps) (auto simp add: Let_def split: prod.splits)

lemma wait_loop_ready:
  "\<not> clock w - start_time > T \<Longrightarrow>
   get_deployment_status en (d_deployment_name d) (d_namespace d) w = (Some st, w1) \<Longrightarrow>
   Some (st_ready_replicas st) = st_replicas st \<Longrightarrow> st_ready_replicas st > 0 \<Longrightarrow>
   wait_loop en start_time T d w =
     (fst (commit en (d\<lparr>d_status := RUNNING, d_external_url := Some (service_url d)\<rparr>) w1),
      d\<lparr>d_status := RUNNING, d_external_url := Some (service_url d)\<rparr>,
      snd (commit en (d\<lparr>d_status := RUNNING, d_external_url := Some (service_url d)\<rparr>) w1))"
  by (subst wait_loop.simps) (auto simp add: Let_def split: prod.splits)

lemma wait_loop_progressing_false:
  "\<not> clock w - start_time > T \<Longrightarrow>
   get_deployment_status en (d_deployment_name d) (d_namespace d) w = (Some st, w1) \<Longrightarrow>
   \<not> (Some (st_ready_replicas st) = st_replicas st \<and> st_ready_replicas st > 0) \<Longrightarrow>
   find progressing_false (st_conditions st) = Some c \<Longrightarrow>
   wait_loop en start_time T d w =
     (fst (commit en (d\<lparr>d_status := FAILED, d_error_message := cond_message c\<rparr>) w1),
      d\<lparr>d_status := FAILED, d_error_message := cond_message c\<rparr>,
      snd (commit en (d\<lparr>d_status := FAILED, d_error_message := cond_message c\<rparr>) w1))"
  by (subst wait_loop.simps) (auto simp add: Let_def split: prod.splits)

lemma wait_loop_no_status:
  "\<not> clock w - start_time > T \<Longrightarrow>
   get_deployment_status en (d_deployment_name d) (d_namespace d) w = (None, w1) \<Longrightarrow>
   wait_loop en start_time T d w = wait_loop en start_time T d (sleep en 10 w1)"
  by (subst wait_loop.simps) (auto simp add: Let_def split: prod.splits)

lemma wait_loop_not_yet:
  "\<not> clock w - start_time > T \<Longrightarrow>
   get_deployment_status en (d_deployment_name d) (d_namespace d) w = (Some st, w1) \<Longrightarrow>
   \<not> (Some (st_ready_replicas st) = st_replicas st \<and> st_ready_replicas st > 0) \<Longrightarrow>
   find progressing_false (st_conditions st) = None \<Longrightarrow>
   wait_loop en start_time T d w = wait_loop en start_time T d (sleep en 10 w1)"
  by (subst wait_loop.simps) (auto simp add: Let_def split: prod.splits)

text \<open>
  What the loop leaves behind, whatever the cluster answers: the instance in one of
  three shapes, one database call made, and the store changed by that commit alone.
\<close>

definition loop_exit :: "Deployment \<Rightarrow> Deployment \<Rightarrow> bool" where
  "loop_exit d d' \<longleftrightarrow>
     d' = d\<lparr>d_status := FAILED, d_error_message := Some ''Deployment timeout''\<rparr>
     \<or> d' = d\<lparr>d_status := RUNNING, d_external_url := Some (service_url d)\<rparr>
     \<or> (\<exists>c. progressing_false c \<and> d' = d\<lparr>d_status := FAILED, d_error_message := cond_message c\<rparr>)"

lemma commit_summary:
  "commit en d w = (r, w') \<Longrightarrow>
   db_ops w' = Suc (db_ops w) \<and>
   (case r of
      Done \<Rightarrow> db_fault en (db_ops w) = None \<and> deployments w' = (deployments w)(d_id d \<mapsto> d)
    | Raised e \<Rightarrow> db_fault en (db_ops w) = Some e \<and> deployments w' = deployments w)"
  by (auto simp add: commit_def emit_def split: option.splits)

lemma exit_eq: "f = (fst c, x, snd c) \<Longrightarrow> f = (r, d', w') \<Longrightarrow> c = (r, w') \<and> d' = x"
  by (cases c) simp

lemma exit_summary:
  assumes c: "commit en x w1 = (r, w')"
    and w1: "deployments w1 = deployments w" "db_ops w1 = db_ops w"
    and idx: "d_id x = d_id d"
    and ex: "loop_exit d x"
  shows "loop_exit d x \<and> db_ops w' = Suc (db_ops w) \<and>
   (case r of
      Done \<Rightarrow> db_fault en (db_ops w) = None \<and> deployments w' = (deployments w)(d_id d \<mapsto> x)
    | Raised e \<Rightarrow> db_fault en (db_ops w) = Some e \<and> deployments w' = deployments w)"
proof (cases r)
  case Done
  with commit_summary [OF c] w1 idx ex show ?thesis by simp
next
  case (Raised e)
  with commit_summary [OF c] w1 idx ex show ?thesis by simp
qed

lemma loop_exit_timeout:
  "loop_exit d (d\<lparr>d_status := FAILED, d_error_message := Some ''Deployment timeout''\<rparr>)"
  unfolding loop_exit_def by (rule disjI1) (rule refl)

lemma loop_exit_running:
  "loop_exit d (d\<lparr>d_status := RUNNING, d_external_url := Some (service_url d)\<rparr>)"
  unfolding loop_exit_def by (rule disjI2, rule disjI1) (rule refl)

lemma loop_exit_condition:
  "progressing_false c \<Longrightarrow> loop_exit d (d\<lparr>d_status := FAILED, d_error_message := cond_message c\<rparr>)"
  unfolding loop_exit_def by (rule disjI2, rule disjI2) blast

lemma wait_loop_summary:
  "wait_loop en start_time T d w = (r, d', w') \<Longrightarrow>
   loop_exit d d' \<and> db_ops w' = Suc (db_ops w) \<and>
   (case r of
      Done \<Rightarrow> db_fault en (db_ops w) = None \<and> deployments w' = (deployments w)(d_id d \<mapsto> d')
    | Raised e \<Rightarrow> db_fault en (db_ops w) = Some e \<and> deployments w' = deployments w)"
proof (induction en start_time T d w rule: wait_loop.induct)
  case (1 en start_time T d w)
  show ?case
  proof (cases "clock w - start_time > T")
    case True
    from exit_eq [OF wait_loop_timeout [OF True] 1(3)]
    have c: "commit en (d\<lparr>d_status := FAILED, d_error_message := Some ''Deployment timeout''\<rparr>) w = (r, w')"
      and d': "d' = d\<lparr>d_status := FAILED, d_error_message := Some ''Deployment timeout''\<rparr>"
      by simp_all
    show ?thesis
      unfolding d' by (rule exit_summary [OF c refl refl _ loop_exit_timeout]) simp
  next
    case False
    obtain st w1 where g: "get_deployment_status en (d_deployment_name d) (d_namespace d) w = (st, w1)"
      by (cases "get_deployment_status en (d_deployment_name d) (d_namespace d) w")
    have w1: "deployments w1 = deployments w" "db_ops w1 = db_ops w"
      using g by (auto simp add: get_deployment_status_def Let_def emit_def split: if_splits api.splits)
    have sl: "deployments (sleep en 10 w1) = deployments w" "db_ops (sleep en 10 w1) = db_ops w"
      using w1 by (simp_all add: sleep_def emit_def)
    show ?thesis
    proof (cases st)
      case None
      have eq: "wait_loop en start_time T d w = wait_loop en start_time T d (sleep en 10 w1)"
        using False g None by (simp add: wait_loop_no_status)
      have rec: "wait_loop en start_time T d (sleep en 10 w1) = (r, d', w')"
        using 1(3) unfolding eq .
      show ?thesis
        using 1(1) [OF False g [symmetric] None rec] unfolding sl .
    next
      case (Some status)
      from g Some have g': "get_deployment_status en (d_deployment_name d) (d_namespace d) w = (Some status, w1)"
        by simp
      show ?thesis
      proof (cases "Some (st_ready_replicas status) = st_replicas status \<and> st_ready_replicas status > 0")
        case True
        from True have "Some (st_ready_replicas status) = st_replicas status" "st_ready_replicas status > 0"
          by simp_all
        from exit_eq [OF wait_loop_ready [OF False g' this] 1(3)]
        have c: "commit en (d\<lparr>d_status := RUNNING, d_external_url := Some (service_url d)\<rparr>) w1 = (r, w')"
          and d': "d' = d\<lparr>d_status := RUNNING, d_external_url := Some (service_url d)\<rparr>"
          by simp_all
        show ?thesis
          unfolding d' by (rule exit_summary [OF c w1 _ loop_exit_running]) simp
      next
        case nr: False
        show ?thesis
        proof (cases "find progressing_false (st_conditions status)")
          case None
          have eq: "wait_loop en start_time T d w = wait_loop en start_time T d (sleep en 10 w1)"
            using False g' nr None by (rule wait_loop_not_yet)
          have rec: "wait_loop en start_time T d (sleep en 10 w1) = (r, d', w')"
            using 1(3) unfolding eq .
          show ?thesis
            using 1(2) [OF False g [symmetric] Some nr None rec] unfolding sl .
        next
          case (Some c)
          then have pf: "progressing_false c" by (auto simp add: find_Some_iff)
          from exit_eq [OF wait_loop_progressing_false [OF False g' nr Some] 1(3)]
          have c: "commit en (d\<lparr>d_status := FAILED, d_error_message := cond_message c\<rparr>) w1 = (r, w')"
            and d': "d' = d\<lparr>d_status := FAILED, d_error_message := cond_message c\<rparr>"
            by simp_all
          show ?thesis
            unfolding d' by (rule exit_summary [OF c w1 _ loop_exit_condition [OF pf]]) simp
        qed
      qed
    qed
  qed
qed






definition unreachable :: "env \<Rightarrow> bool" where
  "unreachable en \<longleftrightarrow> \<not> is_initialized en \<or> (\<forall>n v. read_namespaced_deployment_r en n \<noteq> Returns v)"

lemma unreachable_no_status:
  "unreachable en \<Longrightarrow> get_deployment_status en name namespace w = (st, w1) \<Longrightarrow> st = None"
  by (auto simp add: unreachable_def get_deployment_status_def Let_def split: if_splits api.splits)

lemma wait_loop_unreachable:
  "unreachable en \<Longrightarrow> wait_loop en start_time T d w = (r, d', w') \<Longrightarrow>
   d' = d\<lparr>d_status := FAILED, d_error_message := Some ''Deployment timeout''\<rparr> \<and> clock w' - start_time > T"
proof (induction en start_time T d w rule: wait_loop.induct)
  case (1 en start_time T d w)
  show ?case
  proof (cases "clock w - start_time > T")
    case True
    from exit_eq [OF wait_loop_timeout [OF True] 1(4)]
    have c: "commit en (d\<lparr>d_status := FAILED, d_error_message := Some ''Deployment timeout''\<rparr>) w = (r, w')"
      and d': "d' = d\<lparr>d_status := FAILED, d_error_message := Some ''Deployment timeout''\<rparr>"
      by simp_all
    from c have "clock w' = clock w"
      using clock_commit [of en "d\<lparr>d_status := FAILED, d_error_message := Some ''Deployment timeout''\<rparr>" w]
      by simp
    with True d' show ?thesis by simp
  next
    case False
    obtain st w1 where g: "get_deployment_status en (d_deployment_name d) (d_namespace d) w = (st, w1)"
      by (cases "get_deployment_status en (d_deployment_name d) (d_namespace d) w")
    have None: "st = None" by (rule unreachable_no_status [OF 1(3) g])
    have eq: "wait_loop en start_time T d w = wait_loop en start_time T d (sleep en 10 w1)"
      using False g None by (simp add: wait_loop_no_status)
    have rec: "wait_loop en start_time T d (sleep en 10 w1) = (r, d', w')"
      using 1(4) unfolding eq .
    show ?thesis by (rule 1(1) [OF False g [symmetric] None 1(3) rec])
  qed
qed

text \<open>
  Claim C10. A status read that gives no status (the manager is not initialised, or the
  read raises) changes neither the instance nor the store: the loop sleeps 10 seconds
  and polls again. When no read ever gives a status, the loop ends by its timeout
  alone: more than 300 seconds after its entry, with the instance FAILED and the message
  \<^verbatim>\<open>Deployment timeout\<close>, which the store holds when the commit does not raise.
\<close>

theorem poll_without_status_only_times_out:
  "(\<not> clock w - start_time > 300 \<and>
      get_deployment_status en (d_deployment_name d) (d_namespace d) w = (None, w1) \<longrightarrow>
        wait_loop en start_time 300 d w = wait_loop en start_time 300 d (sleep en 10 w1)
        \<and> deployments (sleep en 10 w1) = deployments w)
   \<and> ((\<not> is_initialized en \<or> (\<forall>n v. read_namespaced_deployment_r en n \<noteq> Returns v)) \<longrightarrow>
        fst (get_deployment_status en (d_deployment_name d) (d_namespace d) w) = None
        \<and> fst (snd (wait_for_deployment_ready en d w)) =
            d\<lparr>d_status := FAILED, d_error_message := Some ''Deployment timeout''\<rparr>
        \<and> clock (snd (snd (wait_for_deployment_ready en d w))) - clock w > 300
        \<and> (fst (wait_for_deployment_ready en d w) = Done \<longrightarrow>
             deployments (snd (snd (wait_for_deployment_ready en d w))) (d_id d) =
               Some (d\<lparr>d_status := FAILED, d_error_message := Some ''Deployment timeout''\<rparr>)))"
proof (intro conjI impI)
  assume a: "\<not> clock w - start_time > 300 \<and>
      get_deployment_status en (d_deployment_name d) (d_namespace d) w = (None, w1)"
  then show "wait_loop en start_time 300 d w = wait_loop en start_time 300 d (sleep en 10 w1)"
    by (simp add: wait_loop_no_status)
  from a have "deployments w1 = deployments w"
    by (elim conjE) (rule deployments_get_deployment_status)
  then show "deployments (sleep en 10 w1) = deployments w" by simp
next
  assume "\<not> is_initialized en \<or> (\<forall>n v. read_namespaced_deployment_r en n \<noteq> Returns v)"
  then have u: "unreachable en" by (simp add: unreachable_def)
  obtain r d' w' where res: "wait_for_deployment_ready en d w = (r, d', w')"
    by (cases "wait_for_deployment_ready en d w")
  then have l: "wait_loop en (clock w) 300 d w = (r, d', w')"
    by (simp add: wait_for_deployment_ready_def)
  note t = wait_loop_unreachable [OF u l]
  show "fst (get_deployment_status en (d_deployment_name d) (d_namespace d) w) = None"
    using unreachable_no_status [OF u, of "d_deployment_name d" "d_namespace d" w] by (metis prod.collapse)
  show "fst (snd (wait_for_deployment_ready en d w)) =
            d\<lparr>d_status := FAILED, d_error_message := Some ''Deployment timeout''\<rparr>"
    using t res by simp
  show "clock (snd (snd (wait_for_deployment_ready en d w))) - clock w > 300"
    using t res by simp
  assume "fst (wait_for_deployment_ready en d w) = Done"
  with res have "r = Done" by simp
  with wait_loop_summary [OF l] have "deployments w' = (deployments w)(d_id d \<mapsto> d')" by simp
  with t res show "deployments (snd (snd (wait_for_deployment_ready en d w))) (d_id d) =
               Some (d\<lparr>d_status := FAILED, d_error_message := Some ''Deployment timeout''\<rparr>)"
    by simp
qed

theorem poll_without_status_only_times_out_witness:
  "fst (snd (wait_for_deployment_ready (cluster (\<lambda>n. Raises ''connection refused'')) demo_named world0)) =
     demo_named\<lparr>d_status := FAILED, d_error_message := Some ''Deployment timeout''\<rparr>
   \<and> deployments (snd (snd (wait_for_deployment_ready (cluster (\<lambda>n. Raises ''connection refused'')) demo_named world0)))
        ''7d9f2c1e-5a3b-4c8d-9e0f-1a2b3c4d5e6f'' =
     Some (demo_named\<lparr>d_status := FAILED, d_error_message := Some ''Deployment timeout''\<rparr>)
   \<and> fst (snd (wait_for_deployment_ready ((cluster (\<lambda>n. Returns (reading 2 2 [])))\<lparr>is_initialized := False\<rparr>) demo_named world0)) =
     demo_named\<lparr>d_status := FAILED, d_error_message := Some ''Deployment timeout''\<rparr>
   \<and> wait_loop (cluster (\<lambda>n. Raises ''connection refused'')) 0 300 demo_named world0 =
     wait_loop (cluster (\<lambda>n. Raises ''connection refused'')) 0 300 demo_named
       (sleep (cluster (\<lambda>n. Raises ''connection refused'')) 10
          (emit (Log_error ''Failed to get deployment status'')
             (emit (Read_namespaced_deployment (Some ''mcp-demo'') (Some ''mcphub'')) (world0\<lparr>polls := 1\<rparr>))))"
proof -
  let ?E = "cluster (\<lambda>n. Raises ''connection refused'')"
  let ?F = "(cluster (\<lambda>n. Returns (reading 2 2 [])))\<lparr>is_initialized := False\<rparr>"
  have hE: "\<not> is_initialized ?E \<or> (\<forall>n v. read_namespaced_deployment_r ?E n \<noteq> Returns v)"
    by (simp add: cluster_def)
  have hF: "\<not> is_initialized ?F \<or> (\<forall>n v. read_namespaced_deployment_r ?F n \<noteq> Returns v)"
    by (simp add: cluster_def)
  note tE = poll_without_status_only_times_out [where en = ?E and d = demo_named and w = world0,
      THEN conjunct2, rule_format, OF hE]
  note tF = poll_without_status_only_times_out [where en = ?F and d = demo_named and w = world0,
      THEN conjunct2, rule_format, OF hF]
  have a: "fst (snd (wait_for_deployment_ready ?E demo_named world0)) =
     demo_named\<lparr>d_status := FAILED, d_error_message := Some ''Deployment timeout''\<rparr>"
    using tE by simp
  have fin: "fst (wait_for_deployment_ready ?E demo_named world0) = Done"
  proof -
    obtain r d' w' where res: "wait_loop ?E (clock world0) 300 demo_named world0 = (r, d', w')"
      by (cases "wait_loop ?E (clock world0) 300 demo_named world0")
    from wait_loop_summary [OF res] have "r = Done"
      by (cases r) (simp_all add: cluster_def)
    with res show ?thesis by (simp add: wait_for_deployment_ready_def)
  qed
  have b: "deployments (snd (snd (wait_for_deployment_ready ?E demo_named world0)))
        ''7d9f2c1e-5a3b-4c8d-9e0f-1a2b3c4d5e6f'' =
     Some (demo_named\<lparr>d_status := FAILED, d_error_message := Some ''Deployment timeout''\<rparr>)"
    using tE fin by (simp add: demo_named_def demo_def)
  have c: "fst (snd (wait_for_deployment_ready ?F demo_named world0)) =
     demo_named\<lparr>d_status := FAILED, d_error_message := Some ''Deployment timeout''\<rparr>"
    using tF by simp
  have g: "get_deployment_status ?E (d_deployment_name demo_named) (d_namespace demo_named) world0 =
      (None, emit (Log_error ''Failed to get deployment status'')
             (emit (Read_namespaced_deployment (Some ''mcp-demo'') (Some ''mcphub'')) (world0\<lparr>polls := 1\<rparr>)))"
    by (simp add: get_deployment_status_def cluster_def world0_def demo_named_def demo_def Let_def emit_def)
  have t0: "\<not> clock world0 - 0 > 300" by (simp add: world0_def)
  have d: "wait_loop ?E 0 300 demo_named world0 =
     wait_loop ?E 0 300 demo_named
       (sleep ?E 10
          (emit (Log_error ''Failed to get deployment status'')
             (emit (Read_namespaced_deployment (Some ''mcp-demo'') (Some ''mcphub'')) (world0\<lparr>polls := 1\<rparr>))))"
    using poll_without_status_only_times_out [where en = ?E and d = demo_named and w = world0
        and start_time = 0, THEN conjunct1, rule_format, OF conjI [OF t0 g]]
    by simp
  from a b c d show ?thesis by (intro conjI)
qed

section \<open>Deploy\<close>

definition with_names :: "Deployment \<Rightarrow> Deployment" where
  "with_names d =
     d\<lparr>d_deployment_name := Some (''mcp-'' @ d_name d),
       d_service_name := Some ((''mcp-'' @ d_name d) @ ''-service''),
       d_container_name := Some (''mcp-'' @ d_name d)\<rparr>"

definition create_workload :: "env \<Rightarrow> MCPServer \<Rightarrow> Deployment \<Rightarrow> world \<Rightarrow> bool \<times> world" where
  "create_workload en mcp_server d w =
     create_deployment en (''mcp-'' @ d_name d) (d_namespace d)
       (fmt_opt (s_docker_image_name mcp_server) @ '':'' @ fmt_opt (s_docker_image_tag mcp_server))
       (d_port d) (d_replicas d) (d_cpu_limit d) (d_memory_limit d) (d_environment_variables d)
       (Some [(''mcp-server-id'', s_id mcp_server), (''deployment-id'', d_id d),
              (''version'', or_default (s_docker_image_tag mcp_server) ''latest'')]) w"

definition expose_workload :: "env \<Rightarrow> Deployment \<Rightarrow> world \<Rightarrow> bool \<times> world" where
  "expose_workload en d w =
     create_service en (''mcp-'' @ d_name d) (d_namespace d) (d_port d) (d_port d) ''ClusterIP'' None w"

lemma deploy_body_select_raises:
  "select_deployment en deployment_id None w = (Inl e, w1) \<Longrightarrow>
   deploy_body en deployment_id mcp_server w = (Raised e, None, w1)"
  by (simp add: deploy_body_def)

lemma deploy_body_not_found:
  "select_deployment en deployment_id None w = (Inr None, w1) \<Longrightarrow>
   deploy_body en deployment_id mcp_server w = (Done, None, emit (Log_error ''Deployment not found'') w1)"
  by (simp add: deploy_body_def)

lemma deploy_body_commit_raises:
  "select_deployment en deployment_id None w = (Inr (Some d0), w1) \<Longrightarrow>
   commit en (d0\<lparr>d_status := DEPLOYING\<rparr>) w1 = (Raised e, w2) \<Longrightarrow>
   deploy_body en deployment_id mcp_server w = (Raised e, Some (d0\<lparr>d_status := DEPLOYING\<rparr>), w2)"
  by (simp add: deploy_body_def Let_def)

lemma deploy_body_create_failed:
  "select_deployment en deployment_id None w = (Inr (Some d0), w1) \<Longrightarrow>
   commit en (d0\<lparr>d_status := DEPLOYING\<rparr>) w1 = (Done, w2) \<Longrightarrow>
   create_workload en mcp_server (with_names (d0\<lparr>d_status := DEPLOYING\<rparr>)) w2 = (False, w3) \<Longrightarrow>
   commit en ((with_names (d0\<lparr>d_status := DEPLOYING\<rparr>))\<lparr>d_status := FAILED,
       d_error_message := Some ''Failed to create Kubernetes deployment''\<rparr>) w3 = (r, w4) \<Longrightarrow>
   deploy_body en deployment_id mcp_server w =
     (r, Some ((with_names (d0\<lparr>d_status := DEPLOYING\<rparr>))\<lparr>d_status := FAILED,
       d_error_message := Some ''Failed to create Kubernetes deployment''\<rparr>), w4)"
  by (simp add: deploy_body_def Let_def with_names_def create_workload_def)

lemma deploy_body_service_failed:
  "select_deployment en deployment_id None w = (Inr (Some d0), w1) \<Longrightarrow>
   commit en (d0\<lparr>d_status := DEPLOYING\<rparr>) w1 = (Done, w2) \<Longrightarrow>
   create_workload en mcp_server (with_names (d0\<lparr>d_status := DEPLOYING\<rparr>)) w2 = (True, w3) \<Longrightarrow>
   expose_workload en (with_names (d0\<lparr>d_status := DEPLOYING\<rparr>)) w3 = (False, w4) \<Longrightarrow>
   commit en ((with_names (d0\<lparr>d_status := DEPLOYING\<rparr>))\<lparr>d_status := FAILED,
       d_error_message := Some ''Failed to create Kubernetes service''\<rparr>) w4 = (r, w5) \<Longrightarrow>
   deploy_body en deployment_id mcp_server w =
     (r, Some ((with_names (d0\<lparr>d_status := DEPLOYING\<rparr>))\<lparr>d_status := FAILED,
       d_error_message := Some ''Failed to create Kubernetes service''\<rparr>), w5)"
  by (simp add: deploy_body_def Let_def with_names_def create_workload_def expose_workload_def)

lemma deploy_body_waits:
  "select_deployment en deployment_id None w = (Inr (Some d0), w1) \<Longrightarrow>
   commit en (d0\<lparr>d_status := DEPLOYING\<rparr>) w1 = (Done, w2) \<Longrightarrow>
   create_workload en mcp_server (with_names (d0\<lparr>d_status := DEPLOYING\<rparr>)) w2 = (True, w3) \<Longrightarrow>
   expose_workload en (with_names (d0\<lparr>d_status := DEPLOYING\<rparr>)) w3 = (True, w4) \<Longrightarrow>
   wait_for_deployment_ready en (with_names (d0\<lparr>d_status := DEPLOYING\<rparr>)) w4 = (r, d3, w5) \<Longrightarrow>
   deploy_body en deployment_id mcp_server w = (r, Some d3, w5)"
  by (simp add: deploy_body_def Let_def with_names_def create_workload_def expose_workload_def)


definition has_row :: "UUID \<Rightarrow> world \<Rightarrow> bool" where
  "has_row deployment_id w \<longleftrightarrow> (\<exists>x. deployments w deployment_id = Some x \<and> d_id x = deployment_id)"

lemma select_deployment_frame:
  "select_deployment en deployment_id held w = (s, w1) \<Longrightarrow>
   deployments w1 = deployments w \<and> trace w1 = trace w \<and> clock w1 = clock w \<and> db_ops w1 = Suc (db_ops w)"
  by (auto simp add: select_deployment_def split: option.splits)

lemma select_deployment_found:
  "select_deployment en deployment_id None w = (Inr (Some d0), w1) \<Longrightarrow>
   deployments w deployment_id = Some d0"
  by (auto simp add: select_deployment_def split: option.splits)

lemma select_deployment_none:
  "select_deployment en deployment_id held w = (Inr None, w1) \<Longrightarrow> deployments w deployment_id = None"
  by (auto simp add: select_deployment_def split: option.splits)

lemma select_deployment_held:
  "select_deployment en deployment_id held w = (Inr (Some d), w1) \<Longrightarrow>
   held = Some d \<or> (held = None \<and> deployments w deployment_id = Some d)"
  by (auto simp add: select_deployment_def split: option.splits)

lemma create_namespace_frame:
  "create_namespace en namespace w = (b, w') \<Longrightarrow>
   deployments w' = deployments w \<and> db_ops w' = db_ops w"
  by (auto simp add: create_namespace_def Let_def emit_def split: if_splits api.splits)

lemma create_deployment_frame:
  "create_deployment en name namespace img port replicas cpu memory env_vars labels w = (b, w') \<Longrightarrow>
   deployments w' = deployments w \<and> db_ops w' = db_ops w"
  by (auto simp add: create_deployment_def Let_def emit_def dest!: create_namespace_frame
      split: if_splits api.splits prod.splits)

lemma create_workload_frame:
  "create_workload en mcp_server d w = (b, w') \<Longrightarrow>
   deployments w' = deployments w \<and> db_ops w' = db_ops w"
  unfolding create_workload_def by (rule create_deployment_frame)

lemma expose_workload_frame:
  "expose_workload en d w = (b, w') \<Longrightarrow>
   deployments w' = deployments w \<and> db_ops w' = db_ops w"
  by (auto simp add: expose_workload_def create_service_def Let_def emit_def split: if_splits api.splits)

lemma commit_row:
  assumes c: "commit en d w = (r, w')" and i: "d_id d = deployment_id" and h: "has_row deployment_id w"
  shows "has_row deployment_id w' \<and> (r = Done \<longrightarrow> deployments w' deployment_id = Some d)"
proof (cases r)
  case Done
  with commit_summary [OF c] i show ?thesis by (simp add: has_row_def)
next
  case (Raised e)
  with commit_summary [OF c] h show ?thesis by (simp add: has_row_def)
qed

lemma loop_exit_fields:
  "loop_exit d d' \<Longrightarrow>
   d_id d' = d_id d \<and> (d_status d' = RUNNING \<or> d_status d' = FAILED)
   \<and> d_deployment_name d' = d_deployment_name d \<and> d_service_name d' = d_service_name d
   \<and> d_container_name d' = d_container_name d"
  unfolding loop_exit_def by (elim disjE exE conjE) simp_all

lemma wait_row:
  assumes l: "wait_for_deployment_ready en d w = (r, d', w')" and i: "d_id d = deployment_id"
    and h: "has_row deployment_id w"
  shows "has_row deployment_id w' \<and> d_id d' = deployment_id
     \<and> (r = Done \<longrightarrow> deployments w' deployment_id = Some d' \<and> (d_status d' = RUNNING \<or> d_status d' = FAILED))"
proof -
  from l have l': "wait_loop en (clock w) 300 d w = (r, d', w')"
    by (simp add: wait_for_deployment_ready_def)
  note s = wait_loop_summary [OF l']
  from s have f: "d_id d' = d_id d" "d_status d' = RUNNING \<or> d_status d' = FAILED"
    using loop_exit_fields [of d d'] by simp_all
  show ?thesis
  proof (cases r)
    case Done
    with s i f show ?thesis by (simp add: has_row_def)
  next
    case (Raised e)
    with s i f h show ?thesis by (simp add: has_row_def)
  qed
qed

definition settled :: "UUID \<Rightarrow> world \<Rightarrow> bool" where
  "settled deployment_id w \<longleftrightarrow>
     (\<exists>x. deployments w deployment_id = Some x \<and> (d_status x = RUNNING \<or> d_status x = FAILED))"

lemma deploy_body_summary:
  assumes row: "deployments w deployment_id = Some d0" "d_id d0 = deployment_id"
    and res: "deploy_body en deployment_id mcp_server w = (r, held, w')"
  shows "has_row deployment_id w' \<and> (\<forall>h. held = Some h \<longrightarrow> d_id h = deployment_id)
     \<and> (r = Done \<longrightarrow> settled deployment_id w')"
proof -
  have h0: "has_row deployment_id w" using row by (simp add: has_row_def)
  obtain s w1 where sel: "select_deployment en deployment_id None w = (s, w1)"
    by (cases "select_deployment en deployment_id None w")
  note f1 = select_deployment_frame [OF sel]
  have h1: "has_row deployment_id w1" using h0 f1 by (simp add: has_row_def)
  show ?thesis
  proof (cases s)
    case (Inl e)
    with sel have sel_e: "select_deployment en deployment_id None w = (Inl e, w1)" by simp
    from deploy_body_select_raises [OF sel_e, of mcp_server] res
    have e: "r = Raised e" "held = None" "w' = w1" by simp_all
    from h1 show ?thesis unfolding e by simp
  next
    case (Inr found)
    show ?thesis
    proof (cases found)
      case None
      with sel Inr have sel_n: "select_deployment en deployment_id None w = (Inr None, w1)" by simp
      from select_deployment_none [OF sel_n] row show ?thesis by simp
    next
      case (Some d0')
      with sel Inr have sel_s: "select_deployment en deployment_id None w = (Inr (Some d0'), w1)"
        by simp
      from select_deployment_found [OF sel_s] row have "d0' = d0" by simp
      with sel_s have sel': "select_deployment en deployment_id None w = (Inr (Some d0), w1)"
        by simp
      let ?d1 = "d0\<lparr>d_status := DEPLOYING\<rparr>"
      let ?d2 = "with_names ?d1"
      have i1: "d_id ?d1 = deployment_id" using row by simp
      have i2: "d_id ?d2 = deployment_id" using row by (simp add: with_names_def)
      obtain r2 w2 where c1: "commit en ?d1 w1 = (r2, w2)" by (cases "commit en ?d1 w1")
      note k2 = commit_row [OF c1 i1 h1]
      show ?thesis
      proof (cases r2)
        case (Raised e)
        with c1 have c1r: "commit en ?d1 w1 = (Raised e, w2)" by simp
        from deploy_body_commit_raises [OF sel' c1r, of mcp_server] res
        have e: "r = Raised e" "held = Some ?d1" "w' = w2" by simp_all
        from k2 i1 show ?thesis unfolding e by simp
      next
        case Done
        with c1 have c1': "commit en ?d1 w1 = (Done, w2)" by simp
        obtain b3 w3 where cw: "create_workload en mcp_server ?d2 w2 = (b3, w3)"
          by (cases "create_workload en mcp_server ?d2 w2")
        have h3: "has_row deployment_id w3"
          using k2 create_workload_frame [OF cw] by (simp add: has_row_def)
        show ?thesis
        proof (cases b3)
          case False
          let ?d3 = "?d2\<lparr>d_status := FAILED, d_error_message := Some ''Failed to create Kubernetes deployment''\<rparr>"
          obtain r4 w4 where c4: "commit en ?d3 w3 = (r4, w4)" by (cases "commit en ?d3 w3")
          have i3: "d_id ?d3 = deployment_id" using i2 by simp
          from cw False have cw': "create_workload en mcp_server ?d2 w2 = (False, w3)" by simp
          from deploy_body_create_failed [OF sel' c1' cw' c4] res
          have e: "r = r4" "held = Some ?d3" "w' = w4" by simp_all
          from commit_row [OF c4 i3 h3] show ?thesis
            unfolding e by (simp add: settled_def i3)
        next
          case True
          with cw have cw': "create_workload en mcp_server ?d2 w2 = (True, w3)" by simp
          obtain b4 w4 where ew: "expose_workload en ?d2 w3 = (b4, w4)"
            by (cases "expose_workload en ?d2 w3")
          have h4: "has_row deployment_id w4"
            using h3 expose_workload_frame [OF ew] by (simp add: has_row_def)
          show ?thesis
          proof (cases b4)
            case False
            let ?d3 = "?d2\<lparr>d_status := FAILED, d_error_message := Some ''Failed to create Kubernetes service''\<rparr>"
            obtain r5 w5 where c5: "commit en ?d3 w4 = (r5, w5)" by (cases "commit en ?d3 w4")
            have i3: "d_id ?d3 = deployment_id" using i2 by simp
            from ew False have ew': "expose_workload en ?d2 w3 = (False, w4)" by simp
            from deploy_body_service_failed [OF sel' c1' cw' ew' c5] res
            have e: "r = r5" "held = Some ?d3" "w' = w5" by simp_all
            from commit_row [OF c5 i3 h4] show ?thesis
              unfolding e by (simp add: settled_def i3)
          next
            case True
            with ew have ew': "expose_workload en ?d2 w3 = (True, w4)" by simp
            obtain r5 d3 w5 where wl: "wait_for_deployment_ready en ?d2 w4 = (r5, d3, w5)"
              by (cases "wait_for_deployment_ready en ?d2 w4")
            from deploy_body_waits [OF sel' c1' cw' ew' wl] res
            have e: "r = r5" "held = Some d3" "w' = w5" by simp_all
            from wait_row [OF wl i2 h4] show ?thesis
              unfolding e by (auto simp add: settled_def)
          qed
        qed
      qed
    qed
  qed
qed

lemmas eval_defs = deploy_mcp_server_def deploy_body_def deploy_handler_def select_deployment_def
  commit_def create_deployment_def create_namespace_def create_service_def
  wait_for_deployment_ready_def wait_loop.simps get_deployment_status_def emit_def sleep_def
  Let_def cluster_def reading_def world0_def demo_def demo_server_def fmt_opt_def or_default_def
  service_url_def str_int_def str_nat.simps progressing_false_def

lemma deploy_handler_converts:
  assumes h: "has_row deployment_id w"
    and i: "\<forall>h. held = Some h \<longrightarrow> d_id h = deployment_id"
    and f1: "db_fault en (db_ops w) = None" and f2: "db_fault en (Suc (db_ops w)) = None"
  shows "fst (deploy_handler en deployment_id e held w) = Done \<and>
     (\<exists>x. deployments (snd (deploy_handler en deployment_id e held w)) deployment_id = Some x
        \<and> d_status x = FAILED \<and> d_error_message x = Some e)"
proof -
  from h obtain row where row: "deployments w deployment_id = Some row" "d_id row = deployment_id"
    by (auto simp add: has_row_def)
  show ?thesis
  proof (cases held)
    case None
    with row f1 f2 show ?thesis
      by (simp add: deploy_handler_def select_deployment_def commit_def emit_def Let_def)
  next
    case (Some d)
    with i have "d_id d = deployment_id" by simp
    with Some row f1 f2 show ?thesis
      by (simp add: deploy_handler_def select_deployment_def commit_def emit_def Let_def)
  qed
qed

lemma deploy_handler_done: "fst (deploy_handler en deployment_id e held w) = Done"
  by (simp add: deploy_handler_def Let_def split: prod.splits sum.splits option.splits outcome.splits)

lemma deploy_mcp_server_done: "fst (deploy_mcp_server en deployment_id mcp_server w) = Done"
  by (simp add: deploy_mcp_server_def deploy_handler_done split: prod.splits outcome.splits)

text \<open>
  Claim C1, as stated, fails. The database accepts the commit of DEPLOYING and is lost
  afterwards: the commit at the exit of the poll loop raises, the handler's fetch raises
  too and is only logged. The operation completes with the record still DEPLOYING.
\<close>

theorem deploy_never_left_deploying_counterexample:
  "deployments world0 ''7d9f2c1e-5a3b-4c8d-9e0f-1a2b3c4d5e6f'' = Some demo
   \<and> fst (deploy_mcp_server db_outage ''7d9f2c1e-5a3b-4c8d-9e0f-1a2b3c4d5e6f'' demo_server world0) = Done
   \<and> deployments (snd (deploy_mcp_server db_outage ''7d9f2c1e-5a3b-4c8d-9e0f-1a2b3c4d5e6f'' demo_server world0))
        ''7d9f2c1e-5a3b-4c8d-9e0f-1a2b3c4d5e6f'' = Some (demo\<lparr>d_status := DEPLOYING\<rparr>)
   \<and> d_status (demo\<lparr>d_status := DEPLOYING\<rparr>) \<noteq> RUNNING
   \<and> d_status (demo\<lparr>d_status := DEPLOYING\<rparr>) \<noteq> FAILED"
proof -
  have a: "deployments world0 ''7d9f2c1e-5a3b-4c8d-9e0f-1a2b3c4d5e6f'' = Some demo"
    by (simp add: world0_def)
  have b: "deployments (snd (deploy_mcp_server db_outage ''7d9f2c1e-5a3b-4c8d-9e0f-1a2b3c4d5e6f'' demo_server world0))
        ''7d9f2c1e-5a3b-4c8d-9e0f-1a2b3c4d5e6f'' = Some (demo\<lparr>d_status := DEPLOYING\<rparr>)"
    by (simp add: db_outage_def eval_defs)
  from a b deploy_mcp_server_done show ?thesis by simp
qed

text \<open>
  Claim C1, amended. For a deployment record that exists when \<^verbatim>\<open>deploy_mcp_server\<close> is
  called, the operation completes with the committed status RUNNING or FAILED, provided
  that, when a database call of the \<^verbatim>\<open>try\<close> block raised, the two database calls of the
  exception handler (its fetch and its commit) do not raise.
\<close>

theorem deploy_settles:
  assumes "deployments w deployment_id = Some d0" and "d_id d0 = deployment_id"
    and "deploy_body en deployment_id mcp_server w = (r, held, w1)"
    and "r \<noteq> Done \<longrightarrow> db_fault en (db_ops w1) = None \<and> db_fault en (Suc (db_ops w1)) = None"
  shows "fst (deploy_mcp_server en deployment_id mcp_server w) = Done \<and>
     (\<exists>x. deployments (snd (deploy_mcp_server en deployment_id mcp_server w)) deployment_id = Some x
        \<and> (d_status x = RUNNING \<or> d_status x = FAILED))"
proof (cases r)
  case Done
  with deploy_body_summary [OF assms(1,2,3)] have "settled deployment_id w1" by simp
  moreover from Done assms(3) have "deploy_mcp_server en deployment_id mcp_server w = (Done, w1)"
    by (simp add: deploy_mcp_server_def)
  ultimately show ?thesis by (simp add: settled_def)
next
  case (Raised e)
  with assms(4) have f: "db_fault en (db_ops w1) = None" "db_fault en (Suc (db_ops w1)) = None"
    by simp_all
  from deploy_body_summary [OF assms(1,2,3)]
  have h: "has_row deployment_id w1" and i: "\<forall>h. held = Some h \<longrightarrow> d_id h = deployment_id"
    by simp_all
  have hl: "has_row deployment_id (emit (Log_error ''Error during MCP server deployment'') w1)"
    using h by (simp add: has_row_def)
  from Raised assms(3)
  have eq: "deploy_mcp_server en deployment_id mcp_server w = deploy_handler en deployment_id e held w1"
    by (simp add: deploy_mcp_server_def)
  from deploy_handler_converts [OF h i f, of e] show ?thesis
    unfolding eq by blast
qed

theorem deploy_settles_witness:
  "deployments world0 ''7d9f2c1e-5a3b-4c8d-9e0f-1a2b3c4d5e6f'' = Some demo
   \<and> fst (deploy_body db_hiccup ''7d9f2c1e-5a3b-4c8d-9e0f-1a2b3c4d5e6f'' demo_server world0)
       = Raised ''connection lost''
   \<and> (\<exists>x. deployments (snd (deploy_mcp_server db_hiccup ''7d9f2c1e-5a3b-4c8d-9e0f-1a2b3c4d5e6f'' demo_server world0))
          ''7d9f2c1e-5a3b-4c8d-9e0f-1a2b3c4d5e6f'' = Some x
        \<and> (d_status x = RUNNING \<or> d_status x = FAILED))
   \<and> (\<exists>x. deployments (snd (deploy_mcp_server (cluster (\<lambda>n. Returns (reading 2 2 [])))
          ''7d9f2c1e-5a3b-4c8d-9e0f-1a2b3c4d5e6f'' demo_server world0))
          ''7d9f2c1e-5a3b-4c8d-9e0f-1a2b3c4d5e6f'' = Some x
        \<and> (d_status x = RUNNING \<or> d_status x = FAILED))"
proof -
  let ?id = "''7d9f2c1e-5a3b-4c8d-9e0f-1a2b3c4d5e6f''"
  let ?ok = "cluster (\<lambda>n. Returns (reading 2 2 []))"
  have a: "deployments world0 ?id = Some demo" by (simp add: world0_def)
  have i: "d_id demo = ?id" by (simp add: demo_def)
  obtain r held w1 where b: "deploy_body db_hiccup ?id demo_server world0 = (r, held, w1)"
    by (cases "deploy_body db_hiccup ?id demo_server world0")
  have r: "fst (deploy_body db_hiccup ?id demo_server world0) = Raised ''connection lost''"
    by (simp add: db_hiccup_def eval_defs)
  have n: "db_ops (snd (snd (deploy_body db_hiccup ?id demo_server world0))) = 3"
    by (simp add: db_hiccup_def eval_defs)
  from b n have f: "r \<noteq> Done \<longrightarrow> db_fault db_hiccup (db_ops w1) = None \<and> db_fault db_hiccup (Suc (db_ops w1)) = None"
    by (simp add: db_hiccup_def cluster_def)
  obtain r' held' w1' where b': "deploy_body ?ok ?id demo_server world0 = (r', held', w1')"
    by (cases "deploy_body ?ok ?id demo_server world0")
  have r': "fst (deploy_body ?ok ?id demo_server world0) = Done"
    by (simp add: eval_defs)
  with b' have f': "r' \<noteq> Done \<longrightarrow> db_fault ?ok (db_ops w1') = None \<and> db_fault ?ok (Suc (db_ops w1')) = None"
    by simp
  from a r deploy_settles [OF a i b f] deploy_settles [OF a i b' f'] show ?thesis by blast
qed








section \<open>Delete\<close>

definition gone :: "unit api \<Rightarrow> bool" where
  "gone a \<longleftrightarrow> a = Returns () \<or> a = Raises_ApiException 404"

definition cluster_deletes :: "env \<Rightarrow> bool" where
  "cluster_deletes en \<longleftrightarrow>
     is_initialized en \<and> gone (delete_namespaced_deployment_r en) \<and> gone (delete_namespaced_service_r en)"

lemma k8s_delete_deployment_ok:
  "cluster_deletes en \<Longrightarrow>
   k8s_delete_deployment en name namespace w =
     (True, w\<lparr>trace := trace w @ [Delete_namespaced_deployment name namespace,
                Delete_namespaced_service (fmt_opt name @ ''-service'') namespace]\<rparr>)"
  by (auto simp add: cluster_deletes_def gone_def k8s_delete_deployment_def Let_def emit_def)

lemma k8s_delete_deployment_failed:
  "\<not> cluster_deletes en \<Longrightarrow> k8s_delete_deployment en name namespace w = (b, w') \<Longrightarrow>
   \<not> b \<and> deployments w' = deployments w \<and> db_ops w' = db_ops w"
  by (cases "delete_namespaced_deployment_r en"; cases "delete_namespaced_service_r en")
     (auto simp add: cluster_deletes_def gone_def k8s_delete_deployment_def Let_def emit_def
       split: if_splits)

text \<open>
  Claim C4, as stated, fails in the order of the two deletions:
  \<^verbatim>\<open>KubernetesManager.delete_deployment\<close> deletes the deployment (the workload) first and
  its service second.
\<close>

theorem delete_order_counterexample:
  "trace (snd (delete_deployment (cluster (\<lambda>n. Returns (reading 2 2 [])))
       ''7d9f2c1e-5a3b-4c8d-9e0f-1a2b3c4d5e6f'' world_running)) =
     [Delete_namespaced_deployment (Some ''mcp-demo'') (Some ''mcphub''),
      Delete_namespaced_service ''mcp-demo-service'' (Some ''mcphub''),
      Commit_delete ''7d9f2c1e-5a3b-4c8d-9e0f-1a2b3c4d5e6f'']"
  by (simp add: delete_deployment_def delete_body_def select_deployment_def k8s_delete_deployment_def
      db_call_def commit_delete_def emit_def Let_def cluster_def world_running_def world0_def
      demo_running_def demo_named_def demo_def fmt_opt_def)

text \<open>
  Claim C4, amended. Delete removes the workload first and then its service, a 404
  from either call counting as success. When the manager reports success (both calls
  returned or raised 404, so also when both raised 404) the record is removed from the
  store, with no FAILED transition; when it reports failure the record is kept, FAILED,
  with the message \<^verbatim>\<open>Failed to delete deployment from Kubernetes\<close>. The record exists and
  the database calls do not raise.
\<close>

theorem delete_removes_or_fails:
  assumes "deployments w deployment_id = Some d" and "d_id d = deployment_id"
    and "\<forall>i. db_fault en i = None"
  shows "(cluster_deletes en \<longrightarrow>
            deployments (snd (delete_deployment en deployment_id w)) deployment_id = None
            \<and> trace (snd (delete_deployment en deployment_id w)) =
                trace w @ [Delete_namespaced_deployment (d_deployment_name d) (d_namespace d),
                           Delete_namespaced_service (fmt_opt (d_deployment_name d) @ ''-service'') (d_namespace d),
                           Commit_delete deployment_id])
     \<and> (\<not> cluster_deletes en \<longrightarrow>
            deployments (snd (delete_deployment en deployment_id w)) deployment_id =
              Some (d\<lparr>d_status := FAILED,
                      d_error_message := Some ''Failed to delete deployment from Kubernetes''\<rparr>))"
proof (intro conjI impI)
  have sel: "select_deployment en deployment_id None w = (Inr (Some d), w\<lparr>db_ops := Suc (db_ops w)\<rparr>)"
    using assms by (simp add: select_deployment_def)
  {
    assume ok: "cluster_deletes en"
    have "delete_deployment en deployment_id w =
        (Done, w\<lparr>db_ops := Suc (Suc (Suc (db_ops w))),
                 trace := trace w @ [Delete_namespaced_deployment (d_deployment_name d) (d_namespace d),
                           Delete_namespaced_service (fmt_opt (d_deployment_name d) @ ''-service'') (d_namespace d),
                           Commit_delete deployment_id],
                 deployments := (deployments w)(deployment_id := None)\<rparr>)"
      using assms
      by (simp add: delete_deployment_def delete_body_def sel k8s_delete_deployment_ok [OF ok]
          db_call_def commit_delete_def emit_def)
    then show "deployments (snd (delete_deployment en deployment_id w)) deployment_id = None"
      and "trace (snd (delete_deployment en deployment_id w)) =
                trace w @ [Delete_namespaced_deployment (d_deployment_name d) (d_namespace d),
                           Delete_namespaced_service (fmt_opt (d_deployment_name d) @ ''-service'') (d_namespace d),
                           Commit_delete deployment_id]"
      by simp_all
  }
  {
    assume bad: "\<not> cluster_deletes en"
    obtain b w2 where k: "k8s_delete_deployment en (d_deployment_name d) (d_namespace d)
        (w\<lparr>db_ops := Suc (db_ops w)\<rparr>) = (b, w2)"
      by (cases "k8s_delete_deployment en (d_deployment_name d) (d_namespace d) (w\<lparr>db_ops := Suc (db_ops w)\<rparr>)")
    from k8s_delete_deployment_failed [OF bad k]
    have f: "\<not> b" "deployments w2 = deployments w" by simp_all
    show "deployments (snd (delete_deployment en deployment_id w)) deployment_id =
              Some (d\<lparr>d_status := FAILED,
                      d_error_message := Some ''Failed to delete deployment from Kubernetes''\<rparr>)"
      using assms f
      by (simp add: delete_deployment_def delete_body_def sel k commit_def emit_def)
  }
qed

theorem delete_removes_or_fails_witness:
  "deployments (snd (delete_deployment
       ((cluster (\<lambda>n. Returns (reading 2 2 [])))
          \<lparr>delete_namespaced_deployment_r := Raises_ApiException 404,
           delete_namespaced_service_r := Raises_ApiException 404\<rparr>)
       ''7d9f2c1e-5a3b-4c8d-9e0f-1a2b3c4d5e6f'' world_running))
     ''7d9f2c1e-5a3b-4c8d-9e0f-1a2b3c4d5e6f'' = None
   \<and> deployments (snd (delete_deployment
       ((cluster (\<lambda>n. Returns (reading 2 2 [])))\<lparr>delete_namespaced_service_r := Raises_ApiException 500\<rparr>)
       ''7d9f2c1e-5a3b-4c8d-9e0f-1a2b3c4d5e6f'' world_running))
     ''7d9f2c1e-5a3b-4c8d-9e0f-1a2b3c4d5e6f'' =
       Some (demo_running\<lparr>d_status := FAILED,
               d_error_message := Some ''Failed to delete deployment from Kubernetes''\<rparr>)"
proof -
  let ?id = "''7d9f2c1e-5a3b-4c8d-9e0f-1a2b3c4d5e6f''"
  let ?E = "(cluster (\<lambda>n. Returns (reading 2 2 [])))
          \<lparr>delete_namespaced_deployment_r := Raises_ApiException 404,
           delete_namespaced_service_r := Raises_ApiException 404\<rparr>"
  let ?F = "(cluster (\<lambda>n. Returns (reading 2 2 [])))\<lparr>delete_namespaced_service_r := Raises_ApiException 500\<rparr>"
  have a: "deployments world_running ?id = Some demo_running" by (simp add: world_running_def)
  have i: "d_id demo_running = ?id" by (simp add: demo_running_def demo_named_def demo_def)
  have dE: "\<forall>i. db_fault ?E i = None" and dF: "\<forall>i. db_fault ?F i = None"
    by (simp_all add: cluster_def)
  have okE: "cluster_deletes ?E" by (simp add: cluster_deletes_def gone_def cluster_def)
  have badF: "\<not> cluster_deletes ?F" by (simp add: cluster_deletes_def gone_def cluster_def)
  from delete_removes_or_fails [OF a i dE] okE delete_removes_or_fails [OF a i dF] badF
  show ?thesis by simp
qed

section \<open>Scale and Stop\<close>

definition cluster_scales :: "env \<Rightarrow> bool" where
  "cluster_scales en \<longleftrightarrow> is_initialized en \<and> patch_namespaced_deployment_scale_r en = Returns ()"

lemma k8s_scale_deployment_result:
  "k8s_scale_deployment en name namespace n w = (b, w') \<Longrightarrow>
   b = cluster_scales en \<and> deployments w' = deployments w \<and> db_ops w' = db_ops w
   \<and> background_tasks w' = background_tasks w"
  by (cases "patch_namespaced_deployment_scale_r en")
     (auto simp add: k8s_scale_deployment_def cluster_scales_def Let_def emit_def split: if_splits)

lemma scale_route_result:
  assumes "deployments w deployment_id = Some d" and "d_id d = deployment_id"
    and "d_owner_id d = user_id" and "\<forall>i. db_fault en i = None" and "0 \<le> n" and "n \<le> 10"
  shows "scale_deployment_route en deployment_id n user_id w =
     (Response (d\<lparr>d_replicas := n, d_status := SCALING\<rparr>),
      w\<lparr>db_ops := Suc (Suc (Suc (db_ops w))),
        deployments := (deployments w)(deployment_id \<mapsto> d\<lparr>d_replicas := n, d_status := SCALING\<rparr>),
        trace := trace w @ [Commit (d\<lparr>d_replicas := n, d_status := SCALING\<rparr>)],
        background_tasks := background_tasks w @ [Scale_task deployment_id n]\<rparr>)"
  using assms
  by (simp add: scale_deployment_route_def select_owned_deployment_def commit_def db_call_def
      add_task_def emit_def Let_def)

lemma stop_route_result:
  assumes "deployments w deployment_id = Some d" and "d_id d = deployment_id"
    and "d_owner_id d = user_id" and "\<forall>i. db_fault en i = None"
  shows "stop_deployment_route en deployment_id user_id w =
     (Response (d\<lparr>d_status := STOPPING\<rparr>),
      w\<lparr>db_ops := Suc (Suc (db_ops w)),
        deployments := (deployments w)(deployment_id \<mapsto> d\<lparr>d_status := STOPPING\<rparr>),
        trace := trace w @ [Commit (d\<lparr>d_status := STOPPING\<rparr>)],
        background_tasks := background_tasks w @ [Stop_task deployment_id]\<rparr>)"
  using assms
  by (simp add: stop_deployment_route_def select_owned_deployment_def commit_def
      add_task_def emit_def Let_def)

lemma scale_deployment_result:
  assumes "deployments w deployment_id = Some d" and "d_id d = deployment_id"
    and "\<forall>i. db_fault en i = None"
  shows "deployments (snd (scale_deployment en deployment_id n w)) deployment_id =
     Some (if cluster_scales en then d\<lparr>d_status := RUNNING, d_error_message := None\<rparr>
           else d\<lparr>d_status := FAILED, d_error_message := Some ''Failed to scale deployment''\<rparr>)"
proof -
  have sel: "select_deployment en deployment_id None w = (Inr (Some d), w\<lparr>db_ops := Suc (db_ops w)\<rparr>)"
    using assms by (simp add: select_deployment_def)
  obtain b w2 where k: "k8s_scale_deployment en (d_deployment_name d) (d_namespace d) n
      (w\<lparr>db_ops := Suc (db_ops w)\<rparr>) = (b, w2)"
    by (cases "k8s_scale_deployment en (d_deployment_name d) (d_namespace d) n (w\<lparr>db_ops := Suc (db_ops w)\<rparr>)")
  from k8s_scale_deployment_result [OF k]
  have f: "b = cluster_scales en" "deployments w2 = deployments w" by simp_all
  show ?thesis
    using assms f
    by (simp add: scale_deployment_def scale_body_def sel k commit_def emit_def)
qed

lemma stop_deployment_result:
  assumes "deployments w deployment_id = Some d" and "d_id d = deployment_id"
    and "\<forall>i. db_fault en i = None"
  shows "deployments (snd (stop_deployment en deployment_id w)) deployment_id =
     Some (if cluster_scales en then d\<lparr>d_status := STOPPED, d_replicas := 0, d_error_message := None\<rparr>
           else d\<lparr>d_status := FAILED, d_error_message := Some ''Failed to stop deployment''\<rparr>)"
proof -
  have sel: "select_deployment en deployment_id None w = (Inr (Some d), w\<lparr>db_ops := Suc (db_ops w)\<rparr>)"
    using assms by (simp add: select_deployment_def)
  obtain b w2 where k: "k8s_scale_deployment en (d_deployment_name d) (d_namespace d) 0
      (w\<lparr>db_ops := Suc (db_ops w)\<rparr>) = (b, w2)"
    by (cases "k8s_scale_deployment en (d_deployment_name d) (d_namespace d) 0 (w\<lparr>db_ops := Suc (db_ops w)\<rparr>)")
  from k8s_scale_deployment_result [OF k]
  have f: "b = cluster_scales en" "deployments w2 = deployments w" by simp_all
  show ?thesis
    using assms f
    by (simp add: stop_deployment_def stop_body_def sel k commit_def emit_def)
qed

definition Scale :: "env \<Rightarrow> UUID \<Rightarrow> int \<Rightarrow> UUID \<Rightarrow> world \<Rightarrow> world" where
  \<comment> \<open>a scale request: the handler, then the background task it queued\<close>
  "Scale en deployment_id n user_id w =
     snd (run_background_tasks en (snd (scale_deployment_route en deployment_id n user_id w)))"

definition Stop :: "env \<Rightarrow> UUID \<Rightarrow> UUID \<Rightarrow> world \<Rightarrow> world" where
  "Stop en deployment_id user_id w =
     snd (run_background_tasks en (snd (stop_deployment_route en deployment_id user_id w)))"

text \<open>
  Claim C7. A scale request to 0 replicas and a stop request leave different records.
  The scale handler commits \<^verbatim>\<open>replicas = 0\<close> with status SCALING, and its task ends with
  status RUNNING and the error message cleared; the stop task ends with status STOPPED,
  \<^verbatim>\<open>replicas = 0\<close> and the error message cleared. When the manager cannot patch the
  replica count, the scale task ends FAILED with \<^verbatim>\<open>Failed to scale deployment\<close> and
  the stop task FAILED with \<^verbatim>\<open>Failed to stop deployment\<close>. The record exists, belongs
  to the caller, and the database calls do not raise.
\<close>

theorem scale_to_zero_is_not_stop:
  assumes "deployments w deployment_id = Some d" and "d_id d = deployment_id"
    and "d_owner_id d = user_id" and "\<forall>i. db_fault en i = None" and "background_tasks w = []"
  shows "(cluster_scales en \<longrightarrow>
            deployments (Scale en deployment_id 0 user_id w) deployment_id =
              Some (d\<lparr>d_replicas := 0, d_status := RUNNING, d_error_message := None\<rparr>)
            \<and> deployments (Stop en deployment_id user_id w) deployment_id =
              Some (d\<lparr>d_replicas := 0, d_status := STOPPED, d_error_message := None\<rparr>))
     \<and> (\<not> cluster_scales en \<longrightarrow>
            deployments (Scale en deployment_id 0 user_id w) deployment_id =
              Some (d\<lparr>d_replicas := 0, d_status := FAILED,
                      d_error_message := Some ''Failed to scale deployment''\<rparr>)
            \<and> deployments (Stop en deployment_id user_id w) deployment_id =
              Some (d\<lparr>d_status := FAILED, d_error_message := Some ''Failed to stop deployment''\<rparr>))
     \<and> deployments (snd (scale_deployment en deployment_id 0 w)) deployment_id =
          Some (if cluster_scales en then d\<lparr>d_status := RUNNING, d_error_message := None\<rparr>
                else d\<lparr>d_status := FAILED, d_error_message := Some ''Failed to scale deployment''\<rparr>)
     \<and> deployments (snd (stop_deployment en deployment_id w)) deployment_id =
          Some (if cluster_scales en then d\<lparr>d_status := STOPPED, d_replicas := 0, d_error_message := None\<rparr>
                else d\<lparr>d_status := FAILED, d_error_message := Some ''Failed to stop deployment''\<rparr>)"
proof -
  let ?ds = "d\<lparr>d_replicas := 0, d_status := SCALING\<rparr>"
  let ?dp = "d\<lparr>d_status := STOPPING\<rparr>"
  let ?ws = "w\<lparr>db_ops := Suc (Suc (Suc (db_ops w))),
        deployments := (deployments w)(deployment_id \<mapsto> ?ds),
        trace := trace w @ [Commit ?ds],
        background_tasks := []\<rparr>"
  let ?wp = "w\<lparr>db_ops := Suc (Suc (db_ops w)),
        deployments := (deployments w)(deployment_id \<mapsto> ?dp),
        trace := trace w @ [Commit ?dp],
        background_tasks := []\<rparr>"
  have sc: "Scale en deployment_id 0 user_id w = snd (scale_deployment en deployment_id 0 ?ws)"
    using assms(5)
    by (simp add: Scale_def scale_route_result [OF assms(1-4)] run_background_tasks_def
        split: prod.splits outcome.splits)
  have st: "Stop en deployment_id user_id w = snd (stop_deployment en deployment_id ?wp)"
    using assms(5)
    by (simp add: Stop_def stop_route_result [OF assms(1-4)] run_background_tasks_def
        split: prod.splits outcome.splits)
  have rs: "deployments ?ws deployment_id = Some ?ds" "d_id ?ds = deployment_id"
    and rp: "deployments ?wp deployment_id = Some ?dp" "d_id ?dp = deployment_id"
    using assms(2) by simp_all
  note a = scale_deployment_result [OF rs assms(4), of 0] stop_deployment_result [OF rp assms(4)]
  note b = scale_deployment_result [OF assms(1,2,4), of 0] stop_deployment_result [OF assms(1,2,4)]
  show ?thesis
    unfolding sc st using a b by simp
qed


theorem scale_to_zero_is_not_stop_witness:
  "deployments (Scale (cluster (\<lambda>n. Returns (reading 2 2 []))) ''7d9f2c1e-5a3b-4c8d-9e0f-1a2b3c4d5e6f'' 0
       ''3b241101-e2bb-4255-8caf-4136c566a962'' world_running) ''7d9f2c1e-5a3b-4c8d-9e0f-1a2b3c4d5e6f'' =
     Some (demo_running\<lparr>d_replicas := 0, d_status := RUNNING, d_error_message := None\<rparr>)
   \<and> deployments (Stop (cluster (\<lambda>n. Returns (reading 2 2 []))) ''7d9f2c1e-5a3b-4c8d-9e0f-1a2b3c4d5e6f''
       ''3b241101-e2bb-4255-8caf-4136c566a962'' world_running) ''7d9f2c1e-5a3b-4c8d-9e0f-1a2b3c4d5e6f'' =
     Some (demo_running\<lparr>d_replicas := 0, d_status := STOPPED, d_error_message := None\<rparr>)
   \<and> deployments (Scale ((cluster (\<lambda>n. Returns (reading 2 2 [])))
          \<lparr>patch_namespaced_deployment_scale_r := Raises_ApiException 500\<rparr>)
       ''7d9f2c1e-5a3b-4c8d-9e0f-1a2b3c4d5e6f'' 0
       ''3b241101-e2bb-4255-8caf-4136c566a962'' world_running) ''7d9f2c1e-5a3b-4c8d-9e0f-1a2b3c4d5e6f'' =
     Some (demo_running\<lparr>d_replicas := 0, d_status := FAILED,
             d_error_message := Some ''Failed to scale deployment''\<rparr>)
   \<and> deployments (Stop ((cluster (\<lambda>n. Returns (reading 2 2 [])))
          \<lparr>patch_namespaced_deployment_scale_r := Raises_ApiException 500\<rparr>)
       ''7d9f2c1e-5a3b-4c8d-9e0f-1a2b3c4d5e6f''
       ''3b241101-e2bb-4255-8caf-4136c566a962'' world_running) ''7d9f2c1e-5a3b-4c8d-9e0f-1a2b3c4d5e6f'' =
     Some (demo_running\<lparr>d_status := FAILED, d_error_message := Some ''Failed to stop deployment''\<rparr>)"
proof -
  let ?id = "''7d9f2c1e-5a3b-4c8d-9e0f-1a2b3c4d5e6f''"
  let ?u = "''3b241101-e2bb-4255-8caf-4136c566a962''"
  let ?E = "cluster (\<lambda>n. Returns (reading 2 2 []))"
  let ?F = "(cluster (\<lambda>n. Returns (reading 2 2 [])))\<lparr>patch_namespaced_deployment_scale_r := Raises_ApiException 500\<rparr>"
  have a: "deployments world_running ?id = Some demo_running" by (simp add: world_running_def)
  have i: "d_id demo_running = ?id" and o: "d_owner_id demo_running = ?u"
    by (simp_all add: demo_running_def demo_named_def demo_def)
  have dE: "\<forall>i. db_fault ?E i = None" and dF: "\<forall>i. db_fault ?F i = None"
    by (simp_all add: cluster_def)
  have bt: "background_tasks world_running = []" by (simp add: world_running_def world0_def)
  have okE: "cluster_scales ?E" and badF: "\<not> cluster_scales ?F"
    by (simp_all add: cluster_scales_def cluster_def)
  from scale_to_zero_is_not_stop [OF a i o dE bt] okE scale_to_zero_is_not_stop [OF a i o dF bt] badF
  show ?thesis by simp
qed

section \<open>The deployment request\<close>

lemma select_owned_mcp_server_frame:
  "select_owned_mcp_server en server_id user_id w = (s, w1) \<Longrightarrow>
   w1 = w\<lparr>db_ops := Suc (db_ops w)\<rparr>"
  by (auto simp add: select_owned_mcp_server_def split: option.splits)

lemma select_owned_mcp_server_found:
  "select_owned_mcp_server en server_id user_id w = (Inr (Some s), w1) \<Longrightarrow>
   mcp_servers w server_id = Some s \<and> s_owner_id s = user_id"
  by (auto simp add: select_owned_mcp_server_def split: option.splits if_splits)

definition deployable :: "world \<Rightarrow> UUID \<Rightarrow> UUID \<Rightarrow> bool" where
  \<comment> \<open>the caller owns a server of this id that is READY and has an image name\<close>
  "deployable w server_id user_id \<longleftrightarrow>
     (\<exists>s. mcp_servers w server_id = Some s \<and> s_owner_id s = user_id \<and> s_status s = MCP_READY
        \<and> s_docker_image_name s \<noteq> None \<and> s_docker_image_name s \<noteq> Some [])"

text \<open>
  Claim C9. A deployment request for a server that is not READY, or that has no image
  name, is rejected by the handler itself: the answer is never a created deployment,
  and the world after the request differs from the world before it only in the count
  of database calls, so no row was committed, no background task queued and no call
  made on the cluster. When the fetch does not raise, the answer is the
  \<^verbatim>\<open>HTTPException\<close> with status 400 of the failing test.
\<close>

theorem not_ready_is_rejected:
  "(\<not> deployable w (rq_mcp_server_id deployment_request) current_user_id \<longrightarrow>
      (\<forall>d. fst (create_deployment_route en new_id deployment_request current_user_id w) \<noteq> Response d)
      \<and> snd (create_deployment_route en new_id deployment_request current_user_id w) =
          w\<lparr>db_ops := Suc (db_ops w)\<rparr>)
   \<and> (mcp_servers w (rq_mcp_server_id deployment_request) = Some mcp_server \<and>
       s_owner_id mcp_server = current_user_id \<and> db_fault en (db_ops w) = None \<and>
       s_status mcp_server \<noteq> MCP_READY \<longrightarrow>
         fst (create_deployment_route en new_id deployment_request current_user_id w) =
           HTTPException 400 (MCP_server_not_ready (s_status mcp_server)))
   \<and> (mcp_servers w (rq_mcp_server_id deployment_request) = Some mcp_server \<and>
       s_owner_id mcp_server = current_user_id \<and> db_fault en (db_ops w) = None \<and>
       s_status mcp_server = MCP_READY \<and>
       (s_docker_image_name mcp_server = None \<or> s_docker_image_name mcp_server = Some []) \<longrightarrow>
         fst (create_deployment_route en new_id deployment_request current_user_id w) =
           HTTPException 400 MCP_server_without_image)"
proof (intro conjI impI allI)
  assume nd: "\<not> deployable w (rq_mcp_server_id deployment_request) current_user_id"
  obtain s w1 where sel: "select_owned_mcp_server en (rq_mcp_server_id deployment_request) current_user_id w = (s, w1)"
    by (cases "select_owned_mcp_server en (rq_mcp_server_id deployment_request) current_user_id w")
  note w1 = select_owned_mcp_server_frame [OF sel]
  have r: "(\<forall>d. fst (create_deployment_route en new_id deployment_request current_user_id w) \<noteq> Response d)
      \<and> snd (create_deployment_route en new_id deployment_request current_user_id w) = w1"
  proof (cases s)
    case (Inl e)
    with sel show ?thesis by (simp add: create_deployment_route_def)
  next
    case (Inr found)
    show ?thesis
    proof (cases found)
      case None
      with sel Inr show ?thesis by (simp add: create_deployment_route_def)
    next
      case (Some srv)
      with sel Inr have s': "select_owned_mcp_server en (rq_mcp_server_id deployment_request) current_user_id w
          = (Inr (Some srv), w1)" by simp
      from select_owned_mcp_server_found [OF s'] nd
      have "s_status srv \<noteq> MCP_READY \<or> s_docker_image_name srv = None \<or> s_docker_image_name srv = Some []"
        by (auto simp add: deployable_def)
      with s' show ?thesis by (auto simp add: create_deployment_route_def)
    qed
  qed
  from r show "snd (create_deployment_route en new_id deployment_request current_user_id w) =
          w\<lparr>db_ops := Suc (db_ops w)\<rparr>"
    using w1 by simp
  fix d
  from r show "fst (create_deployment_route en new_id deployment_request current_user_id w) \<noteq> Response d"
    by simp
next
  assume "mcp_servers w (rq_mcp_server_id deployment_request) = Some mcp_server \<and>
       s_owner_id mcp_server = current_user_id \<and> db_fault en (db_ops w) = None \<and>
       s_status mcp_server \<noteq> MCP_READY"
  then show "fst (create_deployment_route en new_id deployment_request current_user_id w) =
           HTTPException 400 (MCP_server_not_ready (s_status mcp_server))"
    by (simp add: create_deployment_route_def select_owned_mcp_server_def)
next
  assume "mcp_servers w (rq_mcp_server_id deployment_request) = Some mcp_server \<and>
       s_owner_id mcp_server = current_user_id \<and> db_fault en (db_ops w) = None \<and>
       s_status mcp_server = MCP_READY \<and>
       (s_docker_image_name mcp_server = None \<or> s_docker_image_name mcp_server = Some [])"
  then show "fst (create_deployment_route en new_id deployment_request current_user_id w) =
           HTTPException 400 MCP_server_without_image"
    by (auto simp add: create_deployment_route_def select_owned_mcp_server_def)
qed


theorem not_ready_is_rejected_witness:
  "create_deployment_route (cluster (\<lambda>n. Returns (reading 2 2 []))) ''7d9f2c1e-5a3b-4c8d-9e0f-1a2b3c4d5e6f''
      demo_request ''3b241101-e2bb-4255-8caf-4136c566a962'' world_building =
     (HTTPException 400 (MCP_server_not_ready MCP_BUILDING), world_building\<lparr>db_ops := 1\<rparr>)
   \<and> create_deployment_route (cluster (\<lambda>n. Returns (reading 2 2 []))) ''7d9f2c1e-5a3b-4c8d-9e0f-1a2b3c4d5e6f''
      demo_request ''3b241101-e2bb-4255-8caf-4136c566a962'' world_imageless =
     (HTTPException 400 MCP_server_without_image, world_imageless\<lparr>db_ops := 1\<rparr>)
   \<and> deployments (world_building\<lparr>db_ops := 1\<rparr>) = Map.empty
   \<and> background_tasks (world_building\<lparr>db_ops := 1\<rparr>) = []
   \<and> trace (world_building\<lparr>db_ops := 1\<rparr>) = []"
proof -
  let ?E = "cluster (\<lambda>n. Returns (reading 2 2 []))"
  let ?id = "''7d9f2c1e-5a3b-4c8d-9e0f-1a2b3c4d5e6f''"
  let ?u = "''3b241101-e2bb-4255-8caf-4136c566a962''"
  let ?sb = "demo_server\<lparr>s_status := MCP_BUILDING, s_docker_image_name := None, s_docker_image_tag := None\<rparr>"
  let ?si = "demo_server\<lparr>s_docker_image_name := None\<rparr>"
  have nb: "\<not> deployable world_building (rq_mcp_server_id demo_request) ?u"
    by (simp add: deployable_def world_building_def demo_request_def)
  have ni: "\<not> deployable world_imageless (rq_mcp_server_id demo_request) ?u"
    by (simp add: deployable_def world_imageless_def demo_request_def)
  have hb: "mcp_servers world_building (rq_mcp_server_id demo_request) = Some ?sb \<and>
       s_owner_id ?sb = ?u \<and> db_fault ?E (db_ops world_building) = None \<and> s_status ?sb \<noteq> MCP_READY"
    by (simp add: world_building_def demo_request_def demo_server_def cluster_def)
  have hi: "mcp_servers world_imageless (rq_mcp_server_id demo_request) = Some ?si \<and>
       s_owner_id ?si = ?u \<and> db_fault ?E (db_ops world_imageless) = None \<and> s_status ?si = MCP_READY \<and>
       (s_docker_image_name ?si = None \<or> s_docker_image_name ?si = Some [])"
    by (simp add: world_imageless_def demo_request_def demo_server_def cluster_def)
  note tb = not_ready_is_rejected [where w = world_building and en = ?E and new_id = ?id
      and deployment_request = demo_request and current_user_id = ?u and mcp_server = ?sb]
  note ti = not_ready_is_rejected [where w = world_imageless and en = ?E and new_id = ?id
      and deployment_request = demo_request and current_user_id = ?u and mcp_server = ?si]
  have b: "create_deployment_route ?E ?id demo_request ?u world_building =
     (HTTPException 400 (MCP_server_not_ready MCP_BUILDING), world_building\<lparr>db_ops := 1\<rparr>)"
    using tb [THEN conjunct1, rule_format, OF nb] tb [THEN conjunct2, THEN conjunct1, rule_format, OF hb]
    by (simp add: prod_eq_iff world_building_def world0_def)
  have i: "create_deployment_route ?E ?id demo_request ?u world_imageless =
     (HTTPException 400 MCP_server_without_image, world_imageless\<lparr>db_ops := 1\<rparr>)"
    using ti [THEN conjunct1, rule_format, OF ni] ti [THEN conjunct2, THEN conjunct2, rule_format, OF hi]
    by (simp add: prod_eq_iff world_imageless_def world0_def)
  from b i show ?thesis by (simp add: world_building_def world0_def)
qed

section \<open>The workload Deploy creates\<close>

definition probes_of :: "event \<Rightarrow> (V1Probe \<times> V1Probe) list" where
  \<comment> \<open>the liveness and readiness probes of the containers a call creates\<close>
  "probes_of e =
     (case e of
        Create_namespaced_deployment namespace m \<Rightarrow>
          map (\<lambda>c. (c_liveness_probe c, c_readiness_probe c)) (m_containers m)
      | _ \<Rightarrow> [])"

lemma manifest_probes:
  "map (\<lambda>c. (c_liveness_probe c, c_readiness_probe c))
     (m_containers (deployment_manifest name namespace img port replicas cpu memory env_vars labels)) =
   [(\<lparr>probe_path = ''/health'', probe_port = port, initial_delay_seconds = 30, period_seconds = 10\<rparr>,
     \<lparr>probe_path = ''/health'', probe_port = port, initial_delay_seconds = 5, period_seconds = 5\<rparr>)]"
  by (simp add: deployment_manifest_def)

text \<open>
  Claim C5 against the code. The record asks for the health check path \<^verbatim>\<open>/healthz\<close>; the
  workload Deploy creates has its liveness and readiness probes on \<^verbatim>\<open>/health\<close>, the path
  \<^verbatim>\<open>create_deployment\<close> writes into every manifest. The port is the deployment's, and the
  readiness probe starts after 5 seconds, the liveness probe after 30.
\<close>

theorem probes_ignore_health_check_path:
  "d_health_check_path demo_custom = ''/healthz''
   \<and> concat (map probes_of (trace (snd (deploy_mcp_server (cluster (\<lambda>n. Returns (reading 2 2 [])))
        ''7d9f2c1e-5a3b-4c8d-9e0f-1a2b3c4d5e6f'' demo_server world_custom)))) =
     [(\<lparr>probe_path = ''/health'', probe_port = 8080, initial_delay_seconds = 30, period_seconds = 10\<rparr>,
       \<lparr>probe_path = ''/health'', probe_port = 8080, initial_delay_seconds = 5, period_seconds = 5\<rparr>)]"
  by (simp add: demo_custom_def world_custom_def probes_of_def manifest_probes eval_defs)


definition commits :: "event list \<Rightarrow> Deployment list" where
  \<comment> \<open>the deployment rows a trace commits, in order\<close>
  "commits es = concat (map (\<lambda>e. case e of Commit d \<Rightarrow> [d] | _ \<Rightarrow> []) es)"

lemma commits_simps [simp]:
  "commits [] = []"
  "commits (xs @ ys) = commits xs @ commits ys"
  "commits (Commit d # es) = d # commits es"
  "commits (Read_namespace a # es) = commits es"
  "commits (Create_namespace a # es) = commits es"
  "commits (Create_namespaced_deployment a m # es) = commits es"
  "commits (Create_namespaced_service a sv # es) = commits es"
  "commits (Read_namespaced_deployment a b # es) = commits es"
  "commits (Sleep n # es) = commits es"
  "commits (Log_error s # es) = commits es"
  by (simp_all add: commits_def)

















section \<open>Generate\<close>

definition image_name_for :: "generator_env \<Rightarrow> MCPServer \<Rightarrow> string" where
  "image_name_for ge s =
     docker_namespace ge @ ''/mcp-server-''
       @ map (\<lambda>c. if c = CHR '' '' then CHR ''-'' else c) (map lower_char (s_name s))"

definition image_tag_for :: "MCPServer \<Rightarrow> string" where
  "image_tag_for s = ''v'' @ take 8 (uuid_hex (s_id s))"

definition output_dir_for :: "generator_env \<Rightarrow> MCPServer \<Rightarrow> string" where
  "output_dir_for ge s = output_base_dir ge @ ''/mcp_server_'' @ s_id s"

definition server_commits :: "event list \<Rightarrow> MCPServer list" where
  \<comment> \<open>the server rows a trace commits, in order\<close>
  "server_commits es = concat (map (\<lambda>e. case e of Commit_server s \<Rightarrow> [s] | _ \<Rightarrow> []) es)"

lemma select_server_found:
  "mcp_servers w server_id = Some s0 \<Longrightarrow> gen_db_fault ge (db_ops w) = None \<Longrightarrow>
   select_server ge server_id None w = (Inr (Some s0), w\<lparr>db_ops := Suc (db_ops w)\<rparr>)"
  by (simp add: select_server_def)

lemma commit_server_ok:
  "gen_db_fault ge (db_ops w) = None \<Longrightarrow>
   commit_server ge s w =
     (Done, w\<lparr>db_ops := Suc (db_ops w), mcp_servers := (mcp_servers w)(s_id s \<mapsto> s),
              trace := trace w @ [Commit_server s]\<rparr>)"
  by (simp add: commit_server_def emit_def)

lemma generate_code_result:
  "generate_code ge s w =
     ((case generate_from_template_r ge of
         Inr n_files \<Rightarrow>
           \<lparr>gr_success = True, gr_output_directory = Some (output_dir_for ge s), gr_error = None,
            gr_logs = ''Generated '' @ str_nat n_files @ '' files successfully''\<rparr>
       | Inl e \<Rightarrow>
           \<lparr>gr_success = False, gr_output_directory = None, gr_error = Some e,
            gr_logs = ''Code generation failed: '' @ e\<rparr>),
      w\<lparr>trace := trace w @ [Generate_from_template (output_dir_for ge s)]\<rparr>)"
  by (simp add: generate_code_def output_dir_for_def emit_def Let_def split: sum.splits)

lemma build_docker_image_result:
  "s_name s = s_name s0 \<Longrightarrow> s_id s = s_id s0 \<Longrightarrow>
   build_docker_image ge s dir w =
     (\<lparr>br_success = b_success (build_image_r ge), br_image_name = image_name_for ge s0,
       br_image_tag = image_tag_for s0, br_logs = b_logs (build_image_r ge),
       br_error = b_error (build_image_r ge)\<rparr>,
      w\<lparr>trace := trace w @ [Build_image dir (image_name_for ge s0) (image_tag_for s0)]\<rparr>)"
  by (simp add: build_docker_image_def image_name_for_def image_tag_for_def emit_def Let_def)

definition srv_generating :: "MCPServer \<Rightarrow> MCPServer" where
  "srv_generating s0 = s0\<lparr>s_status := MCP_GENERATING\<rparr>"

definition srv_generation_failed :: "string \<Rightarrow> MCPServer \<Rightarrow> MCPServer" where
  "srv_generation_failed e s0 =
     s0\<lparr>s_status := MCP_ERROR, s_error_message := Some e,
        s_generation_logs := Some (''Code generation failed: '' @ e)\<rparr>"

definition srv_building :: "generator_env \<Rightarrow> nat \<Rightarrow> MCPServer \<Rightarrow> MCPServer" where
  "srv_building ge n_files s0 =
     s0\<lparr>s_generated_code_path := Some (output_dir_for ge s0),
        s_generation_logs := Some (''Generated '' @ str_nat n_files @ '' files successfully''),
        s_status := MCP_BUILDING\<rparr>"

definition srv_build_failed :: "generator_env \<Rightarrow> nat \<Rightarrow> MCPServer \<Rightarrow> MCPServer" where
  "srv_build_failed ge n_files s0 =
     (srv_building ge n_files s0)\<lparr>s_status := MCP_ERROR, s_error_message := b_error (build_image_r ge),
        s_build_logs := Some (b_logs (build_image_r ge))\<rparr>"

definition srv_ready :: "generator_env \<Rightarrow> nat \<Rightarrow> MCPServer \<Rightarrow> MCPServer" where
  "srv_ready ge n_files s0 =
     (srv_building ge n_files s0)\<lparr>s_docker_image_name := Some (image_name_for ge s0),
        s_docker_image_tag := Some (image_tag_for s0),
        s_build_logs := Some (b_logs (build_image_r ge)),
        s_status := MCP_READY\<rparr>"

lemma generate_run:
  assumes row: "mcp_servers w server_id = Some s0" "s_id s0 = server_id"
    and ok: "\<forall>i. gen_db_fault ge i = None"
  shows "generate_mcp_server ge server_id w =
     (Done,
      (case generate_from_template_r ge of
         Inl e \<Rightarrow>
           w\<lparr>db_ops := db_ops w + 3,
             mcp_servers := (mcp_servers w)(server_id \<mapsto> srv_generation_failed e s0),
             trace := trace w @ [Commit_server (srv_generating s0),
                                 Generate_from_template (output_dir_for ge s0),
                                 Commit_server (srv_generation_failed e s0)]\<rparr>
       | Inr n \<Rightarrow>
           if \<not> b_success (build_image_r ge) then
             w\<lparr>db_ops := db_ops w + 4,
               mcp_servers := (mcp_servers w)(server_id \<mapsto> srv_build_failed ge n s0),
               trace := trace w @ [Commit_server (srv_generating s0),
                                   Generate_from_template (output_dir_for ge s0),
                                   Commit_server (srv_building ge n s0),
                                   Build_image (output_dir_for ge s0) (image_name_for ge s0) (image_tag_for s0),
                                   Commit_server (srv_build_failed ge n s0)]\<rparr>
           else
             w\<lparr>db_ops := db_ops w + 4,
               mcp_servers := (mcp_servers w)(server_id \<mapsto> srv_ready ge n s0),
               trace := trace w @ [Commit_server (srv_generating s0),
                                   Generate_from_template (output_dir_for ge s0),
                                   Commit_server (srv_building ge n s0),
                                   Build_image (output_dir_for ge s0) (image_name_for ge s0) (image_tag_for s0),
                                   Commit_server (srv_ready ge n s0)]\<rparr>))"
proof -
  have sel: "select_server ge server_id None w = (Inr (Some s0), w\<lparr>db_ops := Suc (db_ops w)\<rparr>)"
    using row ok by (simp add: select_server_found)
  have cs: "\<And>s v. commit_server ge s v =
     (Done, v\<lparr>db_ops := Suc (db_ops v), mcp_servers := (mcp_servers v)(s_id s \<mapsto> s),
              trace := trace v @ [Commit_server s]\<rparr>)"
    using ok by (simp add: commit_server_ok)
  have od: "output_dir_for ge (s0\<lparr>s_status := MCP_GENERATING\<rparr>) = output_dir_for ge s0"
    by (simp add: output_dir_for_def)
  show ?thesis
  proof (cases "generate_from_template_r ge")
    case (Inl e)
    then show ?thesis
      using row(2)
      by (simp add: generate_mcp_server_def generate_body_def sel cs generate_code_result od
          srv_generating_def srv_generation_failed_def Let_def)
  next
    case (Inr n)
    have bd: "\<And>s dir v. s_name s = s_name s0 \<Longrightarrow> s_id s = s_id s0 \<Longrightarrow>
        build_docker_image ge s dir v =
     (\<lparr>br_success = b_success (build_image_r ge), br_image_name = image_name_for ge s0,
       br_image_tag = image_tag_for s0, br_logs = b_logs (build_image_r ge),
       br_error = b_error (build_image_r ge)\<rparr>,
      v\<lparr>trace := trace v @ [Build_image dir (image_name_for ge s0) (image_tag_for s0)]\<rparr>)"
      by (rule build_docker_image_result)
    show ?thesis
    proof (cases "b_success (build_image_r ge)")
      case True
      with Inr show ?thesis
        using row(2)
        by (simp add: generate_mcp_server_def generate_body_def sel cs generate_code_result od bd
            srv_generating_def srv_building_def srv_ready_def fmt_opt_def Let_def)
    next
      case False
      with Inr show ?thesis
        using row(2)
        by (simp add: generate_mcp_server_def generate_body_def sel cs generate_code_result od bd
            srv_generating_def srv_building_def srv_build_failed_def fmt_opt_def Let_def)
    qed
  qed
qed


lemma server_commits_simps [simp]:
  "server_commits [] = []"
  "server_commits (Commit_server s # es) = s # server_commits es"
  "server_commits (Generate_from_template dir # es) = server_commits es"
  "server_commits (Build_image dir n t # es) = server_commits es"
  by (simp_all add: server_commits_def)

text \<open>
  Claim C8. A run of \<^verbatim>\<open>generate_mcp_server\<close> sets \<^verbatim>\<open>docker_image_name\<close> and
  \<^verbatim>\<open>docker_image_tag\<close> in the commit that sets status READY and in no other: every row it
  commits is either READY with both fields set, or GENERATING, BUILDING or ERROR with
  both fields as they were before the run. When the code generation fails, the run ends
  with status ERROR, the error and the generation log, and the image is never built;
  when the build fails, it ends with status ERROR, the build's error and log, and the
  image fields untouched; when both succeed, the last commit is the READY one. The
  server's row exists and the database calls do not raise.
\<close>

theorem image_fields_set_with_ready:
  assumes "mcp_servers w server_id = Some s0" and "s_id s0 = server_id"
    and "\<forall>i. gen_db_fault ge i = None"
  shows "(\<forall>s \<in> set (server_commits (drop (length (trace w)) (trace (snd (generate_mcp_server ge server_id w))))).
            (s_status s = MCP_READY \<and> s_docker_image_name s = Some (image_name_for ge s0)
               \<and> s_docker_image_tag s = Some (image_tag_for s0))
            \<or> ((s_status s = MCP_GENERATING \<or> s_status s = MCP_BUILDING \<or> s_status s = MCP_ERROR)
               \<and> s_docker_image_name s = s_docker_image_name s0
               \<and> s_docker_image_tag s = s_docker_image_tag s0))
     \<and> (\<forall>e. generate_from_template_r ge = Inl e \<longrightarrow>
            mcp_servers (snd (generate_mcp_server ge server_id w)) server_id =
              Some (s0\<lparr>s_status := MCP_ERROR, s_error_message := Some e,
                      s_generation_logs := Some (''Code generation failed: '' @ e)\<rparr>)
            \<and> (\<forall>dir n t. Build_image dir n t \<notin>
                  set (drop (length (trace w)) (trace (snd (generate_mcp_server ge server_id w))))))
     \<and> (\<forall>n. generate_from_template_r ge = Inr n \<and> \<not> b_success (build_image_r ge) \<longrightarrow>
            (\<exists>s. mcp_servers (snd (generate_mcp_server ge server_id w)) server_id = Some s
               \<and> s_status s = MCP_ERROR \<and> s_error_message s = b_error (build_image_r ge)
               \<and> s_build_logs s = Some (b_logs (build_image_r ge))
               \<and> s_docker_image_name s = s_docker_image_name s0
               \<and> s_docker_image_tag s = s_docker_image_tag s0))
     \<and> (\<forall>n. generate_from_template_r ge = Inr n \<and> b_success (build_image_r ge) \<longrightarrow>
            (\<exists>s. mcp_servers (snd (generate_mcp_server ge server_id w)) server_id = Some s
               \<and> s_status s = MCP_READY
               \<and> s_docker_image_name s = Some (image_name_for ge s0)
               \<and> s_docker_image_tag s = Some (image_tag_for s0)
               \<and> last (server_commits (drop (length (trace w))
                      (trace (snd (generate_mcp_server ge server_id w))))) = s))"
proof -
  note run = generate_run [OF assms]
  show ?thesis
  proof (cases "generate_from_template_r ge")
    case (Inl e)
    with run show ?thesis
      by (simp add: srv_generating_def srv_generation_failed_def)
  next
    case (Inr n)
    show ?thesis
    proof (cases "b_success (build_image_r ge)")
      case True
      with run Inr show ?thesis
        by (simp add: srv_generating_def srv_building_def srv_ready_def)
    next
      case False
      with run Inr show ?thesis
        by (simp add: srv_generating_def srv_building_def srv_build_failed_def)
    qed
  qed
qed

lemma demo_image: "image_name_for (builder r b) demo_pending = ''mcphub/mcp-server-demo-api''"
  "image_tag_for demo_pending = ''v0f8fad5b''"
  by (simp_all add: image_name_for_def image_tag_for_def builder_def demo_pending_def lower_char_def
      uuid_hex_def)


theorem image_fields_set_with_ready_witness:
  "(\<exists>s. mcp_servers (snd (generate_mcp_server
            (builder (Inr 5) \<lparr>b_success = True, b_error = None, b_logs = ''Successfully built''\<rparr>)
            ''0f8fad5b-d9cb-469f-a165-70867728950e'' world_pending))
          ''0f8fad5b-d9cb-469f-a165-70867728950e'' = Some s
        \<and> s_status s = MCP_READY
        \<and> s_docker_image_name s = Some ''mcphub/mcp-server-demo-api''
        \<and> s_docker_image_tag s = Some ''v0f8fad5b'')
   \<and> mcp_servers (snd (generate_mcp_server
            (builder (Inl ''template not found'') \<lparr>b_success = True, b_error = None, b_logs = ''Successfully built''\<rparr>)
            ''0f8fad5b-d9cb-469f-a165-70867728950e'' world_pending))
          ''0f8fad5b-d9cb-469f-a165-70867728950e'' =
        Some (demo_pending\<lparr>s_status := MCP_ERROR, s_error_message := Some ''template not found'',
                s_generation_logs := Some ''Code generation failed: template not found''\<rparr>)
   \<and> (\<exists>s. mcp_servers (snd (generate_mcp_server
            (builder (Inr 5) \<lparr>b_success = False, b_error = Some ''Dockerfile not found in source directory'',
                                b_logs = []\<rparr>)
            ''0f8fad5b-d9cb-469f-a165-70867728950e'' world_pending))
          ''0f8fad5b-d9cb-469f-a165-70867728950e'' = Some s
        \<and> s_status s = MCP_ERROR
        \<and> s_error_message s = Some ''Dockerfile not found in source directory''
        \<and> s_docker_image_name s = None \<and> s_docker_image_tag s = None)"
proof -
  let ?id = "''0f8fad5b-d9cb-469f-a165-70867728950e''"
  let ?good = "\<lparr>b_success = True, b_error = None, b_logs = ''Successfully built''\<rparr>"
  let ?bad = "\<lparr>b_success = False, b_error = Some ''Dockerfile not found in source directory'', b_logs = []\<rparr>"
  have a: "mcp_servers world_pending ?id = Some demo_pending" by (simp add: world_pending_def)
  have i: "s_id demo_pending = ?id" by (simp add: demo_pending_def)
  have db: "\<And>r b. \<forall>i. gen_db_fault (builder r b) i = None" by (simp add: builder_def)
  have r1: "generate_from_template_r (builder (Inr 5) ?good) = Inr 5 \<and> b_success (build_image_r (builder (Inr 5) ?good))"
    by (simp add: builder_def)
  have r2: "generate_from_template_r (builder (Inl ''template not found'') ?good) = Inl ''template not found''"
    by (simp add: builder_def)
  have r3: "generate_from_template_r (builder (Inr 5) ?bad) = Inr 5 \<and> \<not> b_success (build_image_r (builder (Inr 5) ?bad))"
    by (simp add: builder_def)
  note t1 = image_fields_set_with_ready [OF a i db, of "Inr 5" ?good,
      THEN conjunct2, THEN conjunct2, THEN conjunct2, rule_format, OF r1]
  note t2 = image_fields_set_with_ready [OF a i db, of "Inl ''template not found''" ?good,
      THEN conjunct2, THEN conjunct1, rule_format, OF r2, THEN conjunct1]
  note t3 = image_fields_set_with_ready [OF a i db, of "Inr 5" ?bad,
      THEN conjunct2, THEN conjunct2, THEN conjunct1, rule_format, OF r3]
  have c1: "\<exists>s. mcp_servers (snd (generate_mcp_server (builder (Inr 5) ?good) ?id world_pending)) ?id = Some s
        \<and> s_status s = MCP_READY
        \<and> s_docker_image_name s = Some ''mcphub/mcp-server-demo-api''
        \<and> s_docker_image_tag s = Some ''v0f8fad5b''"
    using t1 by (auto simp add: demo_image)
  have c3: "\<exists>s. mcp_servers (snd (generate_mcp_server (builder (Inr 5) ?bad) ?id world_pending)) ?id = Some s
        \<and> s_status s = MCP_ERROR
        \<and> s_error_message s = Some ''Dockerfile not found in source directory''
        \<and> s_docker_image_name s = None \<and> s_docker_image_tag s = None"
    using t3 by (auto simp add: builder_def demo_pending_def)
  from c1 t2 c3 show ?thesis by simp
qed

end
